theory Spec2Isabelle
  imports Complex_Main
begin

section \<open>Python floats\<close>

text \<open>
  A Python float is an IEEE 754 binary64 number. It is modelled as the real number it
  denotes, and every operation rounds its exact result to the nearest binary64 number, a tie
  going to the even significand. \<open>round_half_even\<close> is that rounding to an integer.
  Infinities and NaN are outside the model: no operation below is applied to values large
  enough to overflow, and every division is guarded against a zero divisor by the program.
\<close>

definition round_half_even :: "real \<Rightarrow> int" where
  "round_half_even x =
     (let f = \<lfloor>x\<rfloor>; d = x - of_int f in
      if d < 1 / 2 then f else if 1 / 2 < d then f + 1 else if even f then f else f + 1)"

text \<open>
  The spacing of the binary64 numbers around a positive \<open>a\<close>: 52 binary places below the
  leading bit of \<open>a\<close>, and \<open>2 powi - 1074\<close> in the subnormal range.
\<close>

definition f64_ulp :: "real \<Rightarrow> real" where
  "f64_ulp a = 2 powi (max \<lfloor>log 2 a\<rfloor> (- 1022) - 52)"

text \<open>
  \<open>float64 x\<close> is the binary64 number nearest to \<open>x\<close>: the value of a literal, of
  \<open>float(x)\<close>, and of the result of an operation whose exact result is \<open>x\<close>.
\<close>

definition float64 :: "real \<Rightarrow> real" where
  "float64 x = sgn x * (of_int (round_half_even (\<bar>x\<bar> / f64_ulp \<bar>x\<bar>)) * f64_ulp \<bar>x\<bar>)"

definition is_float64 :: "real \<Rightarrow> bool" where
  "is_float64 x = (float64 x = x)"

definition fadd :: "real \<Rightarrow> real \<Rightarrow> real" where
  "fadd x y = float64 (x + y)"

definition fsub :: "real \<Rightarrow> real \<Rightarrow> real" where
  "fsub x y = float64 (x - y)"

definition fmul :: "real \<Rightarrow> real \<Rightarrow> real" where
  "fmul x y = float64 (x * y)"

definition fdiv :: "real \<Rightarrow> real \<Rightarrow> real" where
  "fdiv x y = float64 (x / y)"

text \<open>
  \<open>round(x, ndigits)\<close> of Python on a float: the exact value of \<open>x\<close> is rounded to the
  nearest multiple of \<open>10 ^ -ndigits\<close>, a tie going to the even digit, and the result is the
  float nearest to that decimal.
\<close>

definition py_round :: "real \<Rightarrow> nat \<Rightarrow> real" where
  "py_round x ndigits = float64 (of_int (round_half_even (x * 10 ^ ndigits)) / 10 ^ ndigits)"

text \<open>
  \<open>round(x, ndigits)\<close> on a numpy \<open>float64\<close> scalar is \<open>numpy.round\<close>: the float product
  \<open>x * 10 ^ ndigits\<close> is rounded to the nearest integer (\<open>rint\<close>, a tie going to the even
  integer) and divided by \<open>10 ^ ndigits\<close>.
\<close>

definition np_round :: "real \<Rightarrow> nat \<Rightarrow> real" where
  "np_round x ndigits =
     fdiv (of_int (round_half_even (fmul x (10 ^ ndigits)))) (10 ^ ndigits)"


section \<open>Threshold policy\<close>

text \<open>
  Strings are byte strings; a character beyond ASCII is written as its UTF-8 bytes.
\<close>

subsection \<open>Nine-tier classification (scripts/classify_risk_BACEN.py)\<close>

text \<open>The dict returned by \<open>classify_risk_bacen\<close>, one field per key.\<close>

record bacen =
  nivel_bacen :: string
  classificacao :: string
  decisao :: string
  provisao :: real
  cor :: string
  descricao :: string

definition classify_risk_bacen :: "real \<Rightarrow> bacen" where
  "classify_risk_bacen probability =
     (let prob_percent = fmul probability 100 in
      if prob_percent \<le> 0.5 then
        \<lparr>nivel_bacen = ''AA'',
         classificacao = ''Risco M'' @ [CHR 0xC3, CHR 0xAD] @ ''nimo'',
         decisao = ''Aprovar'', provisao = 0.0, cor = ''verde'',
         descricao = ''Excelente perfil de cr'' @ [CHR 0xC3, CHR 0xA9] @ ''dito''\<rparr>
      else if prob_percent \<le> 1.0 then
        \<lparr>nivel_bacen = ''A'',
         classificacao = ''Risco Baixo'',
         decisao = ''Aprovar'', provisao = 0.5, cor = ''verde'',
         descricao = [CHR 0xC3, CHR 0x93] @ ''timo perfil de cr'' @ [CHR 0xC3, CHR 0xA9] @ ''dito''\<rparr>
      else if prob_percent \<le> 3.0 then
        \<lparr>nivel_bacen = ''B'',
         classificacao = ''Risco Moderado'',
         decisao = ''Aprovar'', provisao = 1.0, cor = ''verde'',
         descricao = ''Bom perfil de cr'' @ [CHR 0xC3, CHR 0xA9] @ ''dito''\<rparr>
      else if prob_percent \<le> 10.0 then
        \<lparr>nivel_bacen = ''C'',
         classificacao = ''Risco M'' @ [CHR 0xC3, CHR 0xA9] @ ''dio'',
         decisao = ''Revisar'', provisao = 3.0, cor = ''amarelo'',
         descricao = ''An'' @ [CHR 0xC3, CHR 0xA1] @ ''lise criteriosa necess''
                     @ [CHR 0xC3, CHR 0xA1] @ ''ria''\<rparr>
      else if prob_percent \<le> 30.0 then
        \<lparr>nivel_bacen = ''D'',
         classificacao = ''Risco Alto'',
         decisao = ''Revisar com Restri'' @ [CHR 0xC3, CHR 0xA7, CHR 0xC3, CHR 0xB5] @ ''es'',
         provisao = 10.0, cor = ''laranja'',
         descricao = ''Exigir garantias adicionais''\<rparr>
      else if prob_percent \<le> 50.0 then
        \<lparr>nivel_bacen = ''E'',
         classificacao = ''Risco Elevado'',
         decisao = ''Negar'', provisao = 30.0, cor = ''vermelho'',
         descricao = ''Risco inaceit'' @ [CHR 0xC3, CHR 0xA1] @ ''vel''\<rparr>
      else if prob_percent \<le> 70.0 then
        \<lparr>nivel_bacen = ''F'',
         classificacao = ''Risco Muito Elevado'',
         decisao = ''Negar'', provisao = 50.0, cor = ''vermelho'',
         descricao = ''Risco cr'' @ [CHR 0xC3, CHR 0xAD] @ ''tico''\<rparr>
      else if prob_percent \<le> 100.0 then
        \<lparr>nivel_bacen = ''G'',
         classificacao = ''Risco Cr'' @ [CHR 0xC3, CHR 0xAD] @ ''tico'',
         decisao = ''Negar'', provisao = 70.0, cor = ''vermelho'',
         descricao = ''Inadimpl'' @ [CHR 0xC3, CHR 0xAA] @ ''ncia prov''
                     @ [CHR 0xC3, CHR 0xA1] @ ''vel''\<rparr>
      else
        \<lparr>nivel_bacen = ''H'',
         classificacao = ''Perda'',
         decisao = ''Negar'', provisao = 100.0, cor = ''vermelho'',
         descricao = ''Inadimpl'' @ [CHR 0xC3, CHR 0xAA] @ ''ncia confirmada''\<rparr>)"

subsection \<open>Three-tier recommendation (ModelService._get_recommendation)\<close>

definition get_recommendation :: "real \<Rightarrow> string" where
  "get_recommendation probability =
     (if probability \<le> float64 0.10 then ''Aprovar''
      else if probability \<le> float64 0.30 then ''Revisar''
      else ''Negar'')"

subsection \<open>The tier table as the specification words it\<close>

text \<open>
  The bands of the specification: inclusive upper bound as a probability fraction, tier
  code, provisioning percentage. \<open>spec_tier\<close> takes the first band whose bound is at least
  the probability, and the overflow tier H with 100 per cent when there is none. A bound is a
  decimal literal: compared with a float, it is the float nearest to it.
\<close>

definition spec_bands :: "(real \<times> string \<times> real) list" where
  "spec_bands =
     [(0.005, ''AA'', 0), (0.01, ''A'', 0.5), (0.03, ''B'', 1), (0.10, ''C'', 3),
      (0.30, ''D'', 10), (0.50, ''E'', 30), (0.70, ''F'', 50), (1.00, ''G'', 70)]"

definition spec_tier :: "real \<Rightarrow> string \<times> real" where
  "spec_tier p =
     (case find (\<lambda>(ub, _, _). p \<le> float64 ub) spec_bands of
        Some (_, tier, prov) \<Rightarrow> (tier, prov)
      | None \<Rightarrow> (''H'', 100))"


section \<open>Population metrics engine (api/app/services/data_service.py)\<close>

subsection \<open>numpy and pandas primitives\<close>

text \<open>
  \<open>np.linspace(start, stop, num)\<close> for \<open>num > 1\<close>, as numpy computes it in floats:
  \<open>delta = stop - start\<close>, \<open>step = delta / (num - 1)\<close>, the points
  \<open>arange(0, num) * step + start\<close> (or \<open>arange(0, num) / (num - 1) * delta + start\<close> when
  the step underflows to 0), and the last point overwritten with \<open>stop\<close>.
\<close>

definition linspace :: "real \<Rightarrow> real \<Rightarrow> nat \<Rightarrow> real list" where
  "linspace start stop num =
     (let divisor = real (num - 1);
          delta = fsub stop start;
          step = fdiv delta divisor;
          y = map (\<lambda>i. if step = 0 then fmul (fdiv (real i) divisor) delta
                        else fmul (real i) step)
                [0..<num];
          y' = map (\<lambda>v. fadd v start) y
      in y'[num - 1 := stop])"

text \<open>
  A boolean pandas Series is a list of booleans aligned with the rows of the table:
  \<open>a & b\<close>, \<open>~a\<close>, \<open>a.sum()\<close> and the selection \<open>df.loc[a, column]\<close>.
\<close>

type_synonym mask = "bool list"

definition mask_and :: "mask \<Rightarrow> mask \<Rightarrow> mask" where
  "mask_and a b = map2 (\<and>) a b"

definition mask_not :: "mask \<Rightarrow> mask" where
  "mask_not a = map Not a"

definition mask_sum :: "mask \<Rightarrow> int" where
  "mask_sum a = int (length (filter id a))"

definition loc :: "mask \<Rightarrow> 'a list \<Rightarrow> 'a list" where
  "loc a column = map snd (filter fst (zip a column))"

subsection \<open>The population table\<close>

text \<open>
  The three columns read from the parquet file, and the table after \<open>_preprocess_data\<close>
  has added the column \<open>score_normalizado\<close>. The tables are taken to hold no missing value.
  A score or a ticket is a float, or an integer that a float holds exactly (below \<open>2 ^ 53\<close>),
  as in the file that \<open>gerar_dados_REALISTICOS.py\<close> writes.
\<close>

record raw_row =
  score :: real
  inadimplente :: int
  ticket :: real

record row = raw_row +
  score_normalizado :: real

definition normalize_row :: "raw_row \<Rightarrow> row" where
  "normalize_row r =
     \<lparr>score = score r, inadimplente = inadimplente r, ticket = ticket r,
      score_normalizado = fdiv (fsub (score r) 300) (950 - 300)\<rparr>"

subsection \<open>Result dictionaries\<close>

text \<open>The dict returned by \<open>get_metrics\<close>; Python's \<open>0\<close> and \<open>0.0\<close> are both the real 0.\<close>

record metrics =
  saldoLiquido :: real
  taxaAprovacao :: real
  taxaInadimplencia :: real
  totalClientes :: int
  clientesAprovados :: int
  clientesRejeitados :: int
  receitaTotal :: real
  perdasInadimplencia :: real
  oportunidadesPerdidas :: real
  perdasEvitadas :: real
  valorMedio :: real
  threshold :: real

text \<open>
  The dict returned by \<open>get_confusion_matrix\<close>. Without a table it has the four cells only:
  a key that is absent is \<open>None\<close>.
\<close>

record confusion =
  tp :: int
  fp :: int
  tn :: int
  fn :: int
  accuracy :: "real option"
  precision :: "real option"
  recall :: "real option"
  f1_score :: "real option"
  cm_threshold :: "real option"

subsection \<open>Service state, clock and cache\<close>

text \<open>
  The one dictionary \<open>_metrics_cache\<close> is keyed by the MD5 digest of the text
  \<open>method:{"threshold": round(threshold, 2)}\<close>. Digest collisions aside, the entries of two
  methods never share a key, so the dictionary is held as one map per method name, from the
  rounded threshold to the cached dict and the time it was stored.
  \<open>total_clientes\<close> and \<open>valor_medio\<close> exist once \<open>_preprocess_data\<close> has run; they are
  read only behind the test of \<open>df_preprocessed\<close>.
\<close>

record data_service =
  df :: "raw_row list option"
  df_preprocessed :: "row list option"
  metrics_cache :: "real \<rightharpoonup> metrics \<times> real"
  confusion_cache :: "real \<rightharpoonup> confusion \<times> real"
  cache_ttl :: real
  total_clientes :: int
  valor_medio :: real

text \<open>
  \<open>time.time()\<close>: the clock is the sequence of the values that the coming calls return.
\<close>

type_synonym clock = "nat \<Rightarrow> real"

definition time_time :: "clock \<Rightarrow> real \<times> clock" where
  "time_time clk = (clk 0, \<lambda>n. clk (Suc n))"

definition get_cache_key :: "real \<Rightarrow> real" where
  "get_cache_key thr = py_round thr 2"

definition get_from_cache :: "('k \<rightharpoonup> 'v \<times> real) \<Rightarrow> real \<Rightarrow> 'k \<Rightarrow> clock \<Rightarrow> 'v option \<times> clock" where
  "get_from_cache cache ttl key clk =
     (case cache key of
        None \<Rightarrow> (None, clk)
      | Some (cached_data, timestamp) \<Rightarrow>
          (let (now, clk') = time_time clk in
           if now - timestamp < ttl then (Some cached_data, clk') else (None, clk')))"

definition save_to_cache :: "('k \<rightharpoonup> 'v \<times> real) \<Rightarrow> 'k \<Rightarrow> 'v \<Rightarrow> clock \<Rightarrow> ('k \<rightharpoonup> 'v \<times> real) \<times> clock" where
  "save_to_cache cache key data clk =
     (let (now, clk') = time_time clk in (cache(key \<mapsto> (data, now)), clk'))"

definition clear_cache :: "data_service \<Rightarrow> data_service" where
  "clear_cache s = s\<lparr>metrics_cache := Map.empty, confusion_cache := Map.empty\<rparr>"

subsection \<open>Loading\<close>

text \<open>What reading the parquet file gives: no file, an exception, or the table.\<close>

datatype parquet = FileMissing | ReadFails | Table "raw_row list"

text \<open>
  \<open>column.sum()\<close> of pandas as a float: the exact sum rounded once. pandas adds in an order
  of its own; whenever the partial sums are floats, as with integer tickets, the order does
  not matter and this is the sum it returns.
\<close>

definition column_sum :: "real list \<Rightarrow> real" where
  "column_sum xs = float64 (sum_list xs)"

text \<open>
  \<open>column.mean()\<close>: the sum divided by the count. The mean of an empty column is NaN in
  pandas; it is 0 here and never read.
\<close>

definition mean :: "real list \<Rightarrow> real" where
  "mean xs = (if xs = [] then 0 else fdiv (column_sum xs) (real (length xs)))"

definition preprocess_data :: "data_service \<Rightarrow> data_service" where
  "preprocess_data s =
     (case df s of
        None \<Rightarrow> s
      | Some d \<Rightarrow>
          s\<lparr>df_preprocessed := Some (map normalize_row d),
            total_clientes := int (length d),
            valor_medio := mean (map ticket d)\<rparr>)"

definition load_data :: "parquet \<Rightarrow> data_service \<Rightarrow> data_service" where
  "load_data file s =
     (case file of
        FileMissing \<Rightarrow> s
      | ReadFails \<Rightarrow> s\<lparr>df := None\<rparr>
      | Table d \<Rightarrow> preprocess_data (s\<lparr>df := Some d\<rparr>))"

text \<open>\<open>DataService.__init__\<close>.\<close>

definition init :: "parquet \<Rightarrow> data_service" where
  "init file =
     load_data file
       \<lparr>df = None, df_preprocessed = None, metrics_cache = Map.empty,
        confusion_cache = Map.empty, cache_ttl = 300, total_clientes = 0, valor_medio = 0\<rparr>"

subsection \<open>get_metrics\<close>

text \<open>
  \<open>aprovado_mask = df["score_normalizado"] >= threshold\<close>, the first statement of the
  computations of both \<open>get_metrics\<close> and \<open>get_confusion_matrix\<close>.
\<close>

definition aprovado_mask :: "row list \<Rightarrow> real \<Rightarrow> mask" where
  "aprovado_mask d thr = map (\<lambda>r. thr \<le> score_normalizado r) d"

definition get_empty_metrics :: metrics where
  "get_empty_metrics =
     \<lparr>saldoLiquido = 0, taxaAprovacao = 0, taxaInadimplencia = 0, totalClientes = 0,
      clientesAprovados = 0, clientesRejeitados = 0, receitaTotal = 0,
      perdasInadimplencia = 0, oportunidadesPerdidas = 0, perdasEvitadas = 0,
      valorMedio = 0, threshold = 0.5\<rparr>"

text \<open>
  The computation of \<open>get_metrics\<close> past the cache and the empty-table test (lines 107 to
  155), on the table \<open>d\<close> and the attributes \<open>total_clientes\<close> and \<open>valor_medio\<close>.
  \<open>taxa_aprovacao\<close> is a quotient of two Python integers, a Python float, which \<open>round\<close>
  rounds as Python does; \<open>taxa_inadimplencia\<close> is the quotient of a numpy integer (the sum of
  a column), a numpy \<open>float64\<close>, which \<open>round\<close> rounds as numpy does.
\<close>

definition compute_metrics :: "row list \<Rightarrow> int \<Rightarrow> real \<Rightarrow> real \<Rightarrow> metrics" where
  "compute_metrics d total_cl vmedio thr =
     (let aprovado = aprovado_mask d thr;
          clientes_aprovados = mask_sum aprovado;
          clientes_rejeitados = total_cl - clientes_aprovados;
          taxa_aprovacao =
            (if 0 < total_cl
             then fmul (fdiv (of_int clientes_aprovados) (of_int total_cl)) 100 else 0);
          taxa_inadimplencia =
            (if 0 < clientes_aprovados
             then fmul (fdiv (of_int (sum_list (loc aprovado (map inadimplente d))))
                          (of_int clientes_aprovados)) 100
             else 0);
          receita_aprovados =
            (if 0 < clientes_aprovados then column_sum (loc aprovado (map ticket d)) else 0);
          inadimplentes_aprovados_mask =
            mask_and aprovado (map (\<lambda>r. inadimplente r = 1) d);
          perdas_inadimplentes = column_sum (loc inadimplentes_aprovados_mask (map ticket d));
          saldo_liquido = fsub receita_aprovados perdas_inadimplentes;
          rejeitados_bons_mask =
            mask_and (mask_not aprovado) (map (\<lambda>r. inadimplente r = 0) d);
          oportunidades_perdidas = column_sum (loc rejeitados_bons_mask (map ticket d));
          rejeitados_maus_mask =
            mask_and (mask_not aprovado) (map (\<lambda>r. inadimplente r = 1) d);
          perdas_evitadas = column_sum (loc rejeitados_maus_mask (map ticket d))
      in \<lparr>saldoLiquido = saldo_liquido,
          taxaAprovacao = py_round taxa_aprovacao 1,
          taxaInadimplencia = np_round taxa_inadimplencia 1,
          totalClientes = total_cl,
          clientesAprovados = clientes_aprovados,
          clientesRejeitados = clientes_rejeitados,
          receitaTotal = receita_aprovados,
          perdasInadimplencia = perdas_inadimplentes,
          oportunidadesPerdidas = oportunidades_perdidas,
          perdasEvitadas = perdas_evitadas,
          valorMedio = vmedio,
          threshold = thr\<rparr>)"

definition get_metrics :: "real \<Rightarrow> data_service \<Rightarrow> clock \<Rightarrow> metrics \<times> data_service \<times> clock" where
  "get_metrics thr s clk =
     (let cache_key = get_cache_key thr in
      case get_from_cache (metrics_cache s) (cache_ttl s) cache_key clk of
        (Some cached, clk1) \<Rightarrow> (cached, s, clk1)
      | (None, clk1) \<Rightarrow>
          (case df_preprocessed s of
             None \<Rightarrow> (get_empty_metrics, s, clk1)
           | Some d \<Rightarrow>
               if length d = 0 then (get_empty_metrics, s, clk1)
               else
                 (let result = compute_metrics d (total_clientes s) (valor_medio s) thr in
                  case save_to_cache (metrics_cache s) cache_key result clk1 of
                    (cache', clk2) \<Rightarrow> (result, s\<lparr>metrics_cache := cache'\<rparr>, clk2))))"

subsection \<open>get_confusion_matrix\<close>

text \<open>The computation of \<open>get_confusion_matrix\<close> past the cache and the \<open>None\<close> test.\<close>

definition compute_confusion :: "row list \<Rightarrow> real \<Rightarrow> confusion" where
  "compute_confusion d thr =
     (let aprovado = aprovado_mask d thr;
          rejeitado_mask = mask_not aprovado;
          inadimplente_mask = map (\<lambda>r. inadimplente r = 1) d;
          adimplente_mask = map (\<lambda>r. inadimplente r = 0) d;
          tp' = mask_sum (mask_and rejeitado_mask inadimplente_mask);
          fp' = mask_sum (mask_and rejeitado_mask adimplente_mask);
          tn' = mask_sum (mask_and aprovado adimplente_mask);
          fn' = mask_sum (mask_and aprovado inadimplente_mask);
          total' = tp' + fp' + tn' + fn';
          accuracy' = (if 0 < total' then fdiv (of_int (tp' + tn')) (of_int total') else 0);
          precision' = (if 0 < tp' + fp' then fdiv (of_int tp') (of_int (tp' + fp')) else 0);
          recall' = (if 0 < tp' + fn' then fdiv (of_int tp') (of_int (tp' + fn')) else 0);
          f1_score' =
            (if 0 < fadd precision' recall'
             then fdiv (fmul 2 (fmul precision' recall')) (fadd precision' recall') else 0)
      in \<lparr>tp = tp', fp = fp', tn = tn', fn = fn',
          accuracy = Some (py_round (fmul accuracy' 100) 2),
          precision = Some (py_round (fmul precision' 100) 2),
          recall = Some (py_round (fmul recall' 100) 2),
          f1_score = Some (py_round (fmul f1_score' 100) 2),
          cm_threshold = Some thr\<rparr>)"

definition get_confusion_matrix :: "real \<Rightarrow> data_service \<Rightarrow> clock \<Rightarrow> confusion \<times> data_service \<times> clock" where
  "get_confusion_matrix thr s clk =
     (let cache_key = get_cache_key thr in
      case get_from_cache (confusion_cache s) (cache_ttl s) cache_key clk of
        (Some cached, clk1) \<Rightarrow> (cached, s, clk1)
      | (None, clk1) \<Rightarrow>
          (case df_preprocessed s of
             None \<Rightarrow>
               (\<lparr>tp = 0, fp = 0, tn = 0, fn = 0, accuracy = None, precision = None,
                 recall = None, f1_score = None, cm_threshold = None\<rparr>, s, clk1)
           | Some d \<Rightarrow>
               (let result = compute_confusion d thr in
                case save_to_cache (confusion_cache s) cache_key result clk1 of
                  (cache', clk2) \<Rightarrow> (result, s\<lparr>confusion_cache := cache'\<rparr>, clk2))))"

subsection \<open>The sweep of get_roc_curve_data\<close>

text \<open>
  The body of the loop of \<open>get_roc_curve_data\<close> (lines 215 to 228) for one threshold: the
  counts \<open>tp\<close> and \<open>fp\<close>, then the rates \<open>fpr\<close> and \<open>tpr\<close>; and the loop over the 50 points
  (lines 204 to 231), which gives \<open>fpr_list\<close> and \<open>tpr_list\<close>. The area under the curve that
  the function derives from the two lists is not part of this development.
\<close>

definition roc_rejeitado_mask :: "row list \<Rightarrow> real \<Rightarrow> mask" where
  "roc_rejeitado_mask d thr = map (\<lambda>r. score_normalizado r < thr) d"

definition roc_counts :: "row list \<Rightarrow> real \<Rightarrow> int \<times> int" where
  "roc_counts d thr =
     (let inadimplente_mask = map (\<lambda>r. inadimplente r = 1) d;
          adimplente_mask = map (\<lambda>r. inadimplente r = 0) d;
          rejeitado_mask = roc_rejeitado_mask d thr;
          tp' = mask_sum (mask_and rejeitado_mask inadimplente_mask);
          fp' = mask_sum (mask_and rejeitado_mask adimplente_mask)
      in (tp', fp'))"

definition roc_rates :: "row list \<Rightarrow> real \<Rightarrow> real \<times> real" where
  "roc_rates d thr =
     (let total_inadimplentes = mask_sum (map (\<lambda>r. inadimplente r = 1) d);
          total_adimplentes = mask_sum (map (\<lambda>r. inadimplente r = 0) d);
          (tp', fp') = roc_counts d thr;
          tpr = (if 0 < total_inadimplentes
                 then fdiv (of_int tp') (of_int total_inadimplentes) else 0);
          fpr = (if 0 < total_adimplentes
                 then fdiv (of_int fp') (of_int total_adimplentes) else 0)
      in (fpr, tpr))"

definition roc_sweep :: "row list \<Rightarrow> real list \<times> real list" where
  "roc_sweep d =
     (let thresholds = linspace 0 1 50;
          points = map (roc_rates d) thresholds
      in (map fst points, map snd points))"

subsection \<open>optimize_threshold\<close>

text \<open>A Python float that may be \<open>float("-inf")\<close>, and \<open>value > best_value\<close> on it.\<close>

datatype ext = NegInf | Fin real

fun gt_ext :: "real \<Rightarrow> ext \<Rightarrow> bool" where
  "gt_ext v NegInf = True"
| "gt_ext v (Fin b) = (b < v)"

text \<open>One entry of \<open>results\<close>.\<close>

record grid_result =
  r_threshold :: real
  r_value :: real
  r_metrics :: metrics

text \<open>
  The dict returned by \<open>optimize_threshold\<close>: without a table it has the first two keys
  only, and a key that is absent is \<open>None\<close>.
\<close>

record optimization =
  optimal_threshold :: real
  objective :: string
  best_value :: "ext option"
  best_metrics :: "metrics option"
  all_results :: "grid_result list option"

text \<open>The \<open>if\<close>/\<open>elif\<close> chain that picks the value of one grid point.\<close>

definition objective_value :: "string \<Rightarrow> metrics \<Rightarrow> real" where
  "objective_value obj m =
     (if obj = ''profit'' then saldoLiquido m
      else if obj = ''risk'' then - taxaInadimplencia m
      else if obj = ''balanced'' then fsub (taxaAprovacao m) (fmul (taxaInadimplencia m) 10)
      else saldoLiquido m)"

text \<open>
  The \<open>for\<close> loop over the grid, with the loop variables \<open>best_threshold\<close>, \<open>best_value\<close>
  and \<open>results\<close> as arguments.
\<close>

fun optimize_loop ::
  "string \<Rightarrow> real list \<Rightarrow> real \<Rightarrow> ext \<Rightarrow> grid_result list \<Rightarrow> data_service \<Rightarrow> clock
   \<Rightarrow> (real \<times> ext \<times> grid_result list) \<times> data_service \<times> clock" where
  "optimize_loop obj [] best_threshold best_val results s clk =
     ((best_threshold, best_val, results), s, clk)"
| "optimize_loop obj (thr # thresholds) best_threshold best_val results s clk =
     (case get_metrics thr s clk of
        (m, s1, clk1) \<Rightarrow>
          (let val = objective_value obj m;
               results' = results @ [\<lparr>r_threshold = py_round thr 2, r_value = val, r_metrics = m\<rparr>]
           in if gt_ext val best_val
              then optimize_loop obj thresholds thr (Fin val) results' s1 clk1
              else optimize_loop obj thresholds best_threshold best_val results' s1 clk1))"

definition optimize_threshold :: "string \<Rightarrow> data_service \<Rightarrow> clock \<Rightarrow> optimization \<times> data_service \<times> clock" where
  "optimize_threshold obj s clk =
     (case df_preprocessed s of
        None \<Rightarrow>
          (\<lparr>optimal_threshold = 0.5, objective = obj, best_value = None,
            best_metrics = None, all_results = None\<rparr>, s, clk)
      | Some d \<Rightarrow>
          (case optimize_loop obj (linspace (float64 0.1) (float64 0.9) 9) 0.5 NegInf [] s clk of
             ((best_threshold, best_val, results), s1, clk1) \<Rightarrow>
               (case get_metrics best_threshold s1 clk1 of
                  (m, s2, clk2) \<Rightarrow>
                    (\<lparr>optimal_threshold = py_round best_threshold 2, objective = obj,
                      best_value = Some best_val, best_metrics = Some m,
                      all_results = Some results\<rparr>, s2, clk2))))"


section \<open>Reachable states and sample data\<close>

text \<open>
  The states of the service: the one built by \<open>__init__\<close>, and the state after any call of
  a method on a state of the service, whatever the clock shows. \<open>get_threshold_sensitivity\<close>
  changes the two maps only through its nine calls of \<open>get_metrics\<close>, and
  \<open>get_roc_curve_data\<close> and \<open>get_distribution_data\<close> leave them as they are.
\<close>

inductive reachable :: "data_service \<Rightarrow> bool" where
  reachable_init: "reachable (init file)"
| reachable_metrics: "reachable s \<Longrightarrow> reachable (fst (snd (get_metrics thr s clk)))"
| reachable_confusion: "reachable s \<Longrightarrow> reachable (fst (snd (get_confusion_matrix thr s clk)))"
| reachable_optimize: "reachable s \<Longrightarrow> reachable (fst (snd (optimize_threshold obj s clk)))"
| reachable_clear: "reachable s \<Longrightarrow> reachable (clear_cache s)"

text \<open>
  What the cache holds in a state of the service: nothing without rows, and otherwise under
  each key a result computed from the table of the state at a threshold that rounds to the key.
\<close>

definition cache_inv :: "data_service \<Rightarrow> bool" where
  "cache_inv s =
     (case df_preprocessed s of
        None \<Rightarrow> metrics_cache s = Map.empty \<and> confusion_cache s = Map.empty
      | Some d \<Rightarrow>
          total_clientes s = int (length d)
          \<and> (d = [] \<longrightarrow> metrics_cache s = Map.empty)
          \<and> (\<forall>k m ts. metrics_cache s k = Some (m, ts) \<longrightarrow>
                (\<exists>t. get_cache_key t = k
                     \<and> m = compute_metrics d (total_clientes s) (valor_medio s) t))
          \<and> (\<forall>k c ts. confusion_cache s k = Some (c, ts) \<longrightarrow>
                (\<exists>t. get_cache_key t = k \<and> c = compute_confusion d t)))"

text \<open>
  The state of the scan of \<open>optimize_threshold\<close> between two grid points: before the first
  point the incumbent value is minus infinity and nothing is recorded; afterwards the
  incumbent value is the largest recorded value, and the incumbent threshold is the lowest
  recorded threshold that has it.
\<close>

definition best_so_far :: "real \<Rightarrow> ext \<Rightarrow> grid_result list \<Rightarrow> bool" where
  "best_so_far best_threshold best_val results =
     (case best_val of
        NegInf \<Rightarrow> results = []
      | Fin b \<Rightarrow>
          (\<exists>r\<in>set results. r_threshold r = py_round best_threshold 2 \<and> r_value r = b)
          \<and> (\<forall>r\<in>set results.
                r_value r \<le> b \<and> (r_value r = b \<longrightarrow> py_round best_threshold 2 \<le> r_threshold r)))"

text \<open>
  A metrics snapshot of a state of the service for a rounded threshold: the empty snapshot
  when the state has no rows, and otherwise the result of the computation of \<open>get_metrics\<close>
  on the table of the state, at a threshold that rounds to the given one.
\<close>

definition is_snapshot :: "data_service \<Rightarrow> real \<Rightarrow> metrics \<Rightarrow> bool" where
  "is_snapshot s k m =
     (case df_preprocessed s of
        None \<Rightarrow> m = get_empty_metrics
      | Some d \<Rightarrow>
          if d = [] then m = get_empty_metrics
          else \<exists>t. get_cache_key t = k
                 \<and> m = compute_metrics d (total_clientes s) (valor_medio s) t)"

text \<open>A clock that stands still, and two small tables.\<close>

definition clock0 :: clock where
  "clock0 = (\<lambda>n. 0)"

definition population4 :: "raw_row list" where
  "population4 =
     [\<lparr>score = 430, inadimplente = 1, ticket = 100\<rparr>,
      \<lparr>score = 625, inadimplente = 0, ticket = 200\<rparr>,
      \<lparr>score = 755, inadimplente = 0, ticket = 300\<rparr>,
      \<lparr>score = 885, inadimplente = 1, ticket = 400\<rparr>]"

definition population2 :: "raw_row list" where
  "population2 =
     [\<lparr>score = 430, inadimplente = 0, ticket = 100\<rparr>,
      \<lparr>score = 885, inadimplente = 1, ticket = 400\<rparr>]"

section \<open>Properties of float arithmetic\<close>

subsection \<open>Rounding to an integer\<close>

lemma round_half_even_mono:
  assumes "x \<le> y"
  shows "round_half_even x \<le> round_half_even y"
proof (cases "\<lfloor>x\<rfloor> = \<lfloor>y\<rfloor>")
  case True
  with assms show ?thesis
    by (auto simp: round_half_even_def Let_def)
next
  case False
  with assms have lt: "\<lfloor>x\<rfloor> + 1 \<le> \<lfloor>y\<rfloor>"
    using floor_mono [of x y] by linarith
  have a: "round_half_even x \<le> \<lfloor>x\<rfloor> + 1"
    by (auto simp: round_half_even_def Let_def)
  have b: "\<lfloor>y\<rfloor> \<le> round_half_even y"
    by (auto simp: round_half_even_def Let_def)
  from a b lt show ?thesis by linarith
qed

lemma round_half_even_of_int [simp]: "round_half_even (of_int n) = n"
  by (simp add: round_half_even_def)

lemma round_half_even_le: "x \<le> of_int n \<Longrightarrow> round_half_even x \<le> n"
  using round_half_even_mono [of x "of_int n"] by simp

lemma round_half_even_ge: "of_int n \<le> x \<Longrightarrow> n \<le> round_half_even x"
  using round_half_even_mono [of "of_int n" x] by simp

subsection \<open>Rounding to binary64\<close>

lemma two_powr_powi: "(2::real) powr real_of_int e = 2 powi e"
  by (simp add: powr_real_of_int')

lemma floor_log2_bounds:
  assumes "0 < a"
  shows "2 powi \<lfloor>log 2 a\<rfloor> \<le> a" and "a < 2 powi (\<lfloor>log 2 a\<rfloor> + 1)"
proof -
  have "2 powr real_of_int \<lfloor>log 2 a\<rfloor> \<le> a \<and> a < 2 powr real_of_int (\<lfloor>log 2 a\<rfloor> + 1)"
    using floor_log_eq_powr_iff [of a 2 "\<lfloor>log 2 a\<rfloor>"] assms by simp
  then show "2 powi \<lfloor>log 2 a\<rfloor> \<le> a" and "a < 2 powi (\<lfloor>log 2 a\<rfloor> + 1)"
    by (simp_all only: two_powr_powi)
qed

lemma floor_log2_eq:
  assumes "2 powi e \<le> a" and "a < 2 powi (e + 1)"
  shows "\<lfloor>log 2 a\<rfloor> = e"
proof -
  have pos: "0 < a"
    using assms(1) by (smt (verit) zero_less_power_int)
  have "2 powr real_of_int e \<le> a \<and> a < 2 powr real_of_int (e + 1)"
    using assms by (simp only: two_powr_powi)
  then show ?thesis
    using floor_log_eq_powr_iff [of a 2 e] pos by simp
qed

lemma f64_ulp_pos: "0 < f64_ulp a"
  by (simp add: f64_ulp_def)

lemma f64_ulp_eq:
  assumes "2 powi e \<le> a" and "a < 2 powi (e + 1)"
  shows "f64_ulp a = 2 powi (max e (- 1022) - 52)"
  by (simp add: f64_ulp_def floor_log2_eq [OF assms])

lemma float64_0 [simp]: "float64 0 = 0"
  by (simp add: float64_def)

lemma float64_minus: "float64 (- x) = - float64 x"
  by (simp add: float64_def sgn_minus)

lemma float64_pos:
  "0 < x \<Longrightarrow> float64 x = of_int (round_half_even (x / f64_ulp x)) * f64_ulp x"
  by (simp add: float64_def)

lemma float64_nonneg: "0 \<le> x \<Longrightarrow> 0 \<le> float64 x"
proof (cases "x = 0")
  case False
  assume "0 \<le> x"
  with False have pos: "0 < x" by simp
  have "0 \<le> x / f64_ulp x"
    using pos f64_ulp_pos [of x] by simp
  then have "0 \<le> round_half_even (x / f64_ulp x)"
    using round_half_even_ge [of 0] by simp
  then show ?thesis
    using f64_ulp_pos [of x] by (simp add: float64_pos [OF pos])
qed simp

lemma float64_ge1:
  fixes k :: nat
  assumes "2 ^ k \<le> x" and "x < 2 * 2 ^ k"
  shows "float64 x = of_int (round_half_even (x * 2 ^ 52 / 2 ^ k)) * 2 ^ k / 2 ^ 52"
proof -
  have pos: "0 < x"
    using assms(1) by (smt (verit) zero_less_power)
  have lo: "(2::real) powi int k \<le> x"
    using assms(1) by simp
  have hi: "x < 2 powi (int k + 1)"
    using assms(2) by (simp add: power_int_add)
  have u: "f64_ulp x = 2 ^ k / 2 ^ 52"
    using f64_ulp_eq [OF lo hi] by (simp add: power_int_diff)
  show ?thesis
    by (simp add: float64_pos [OF pos] u)
qed

lemma float64_lt1:
  fixes k :: nat
  assumes "1 / 2 ^ k \<le> x" and "x < 2 / 2 ^ k" and "k \<le> 1022"
  shows "float64 x = of_int (round_half_even (x * 2 ^ (52 + k))) / 2 ^ (52 + k)"
proof -
  have pos: "0 < x"
    using assms(1) by (smt (verit) divide_pos_pos zero_less_power)
  have lo: "(2::real) powi (- int k) \<le> x"
    using assms(1) by (simp add: power_int_minus_divide)
  have "(2::real) powi (- int k + 1) = 2 powi (- int k) * 2 powi 1"
    by (rule power_int_add) simp
  then have "(2::real) powi (- int k + 1) = 2 / 2 ^ k"
    by (simp only: power_int_minus_divide power_int_of_nat) simp
  then have hi: "x < 2 powi (- int k + 1)"
    using assms(2) by simp
  have "max (- int k) (- 1022) - 52 = - int (52 + k)"
    using assms(3) by simp
  then have u: "f64_ulp x = 1 / 2 ^ (52 + k)"
    using f64_ulp_eq [OF lo hi] by (simp only: power_int_minus_divide power_int_of_nat)
  show ?thesis
    by (simp add: float64_pos [OF pos] u)
qed

lemma float64_mono_pos:
  assumes "0 < x" and "x \<le> y"
  shows "float64 x \<le> float64 y"
proof -
  have ypos: "0 < y"
    using assms by simp
  let ?L = "\<lambda>a::real. \<lfloor>log 2 a\<rfloor>"
  let ?E = "\<lambda>a::real. max (?L a) (- 1022)"
  have u: "f64_ulp x = 2 powi (?E x - 52)" "f64_ulp y = 2 powi (?E y - 52)"
    by (simp_all add: f64_ulp_def)
  have L: "?L x \<le> ?L y"
    using assms by (intro floor_mono) simp
  then have E: "?E x \<le> ?E y"
    by simp
  show ?thesis
  proof (cases "?E x = ?E y")
    case True
    then have same: "f64_ulp x = f64_ulp y"
      by (simp only: u)
    have "x / f64_ulp y \<le> y / f64_ulp y"
      using assms(2) f64_ulp_pos [of y] by (simp add: divide_right_mono)
    then have "round_half_even (x / f64_ulp y) \<le> round_half_even (y / f64_ulp y)"
      by (rule round_half_even_mono)
    then have "real_of_int (round_half_even (x / f64_ulp y)) * f64_ulp y
                 \<le> real_of_int (round_half_even (y / f64_ulp y)) * f64_ulp y"
      using f64_ulp_pos [of y] by (simp add: mult_right_mono)
    then show ?thesis
      by (simp add: float64_pos [OF assms(1)] float64_pos [OF ypos] same)
  next
    case False
    with E have lt: "?E x + 1 \<le> ?E y"
      by linarith
    then have Ey: "?E y = ?L y"
      by linarith
    \<comment> \<open>the rounded x does not pass the top of its binade\<close>
    have "x < 2 powi (?L x + 1)"
      using floor_log2_bounds(2) [OF assms(1)] .
    also have "\<dots> \<le> 2 powi (?E x + 1)"
      by (intro power_int_increasing) simp_all
    finally have xtop: "x < 2 powi (?E x + 1)" .
    have "x / f64_ulp x < 2 powi (?E x + 1) / 2 powi (?E x - 52)"
      using xtop by (simp add: u divide_strict_right_mono)
    also have "\<dots> = 2 powi 53"
      by (simp add: power_int_diff [symmetric])
    finally have "x / f64_ulp x \<le> of_int (2 ^ 53)"
      by simp
    then have "round_half_even (x / f64_ulp x) \<le> 2 ^ 53"
      by (rule round_half_even_le)
    then have "real_of_int (round_half_even (x / f64_ulp x)) \<le> real_of_int (2 ^ 53)"
      by (simp only: of_int_le_iff)
    then have "real_of_int (round_half_even (x / f64_ulp x)) \<le> 2 ^ 53"
      by simp
    then have "float64 x \<le> 2 ^ 53 * f64_ulp x"
      using f64_ulp_pos [of x] by (simp add: float64_pos [OF assms(1)] mult_right_mono)
    also have "\<dots> = 2 powi (?E x + 1)"
      by (simp add: u power_int_diff power_int_add)
    also have "\<dots> \<le> 2 powi (?E y)"
      using lt by (intro power_int_increasing) simp_all
    finally have left: "float64 x \<le> 2 powi (?E y)" .
    \<comment> \<open>the rounded y does not fall below the bottom of its binade\<close>
    have "2 powi (?E y) \<le> y"
      using floor_log2_bounds(1) [OF ypos] Ey by simp
    then have "2 powi (?E y) / 2 powi (?E y - 52) \<le> y / f64_ulp y"
      by (simp add: u divide_right_mono)
    moreover have "(2::real) powi (?E y) / 2 powi (?E y - 52) = of_int (2 ^ 52)"
      by (simp add: power_int_diff [symmetric])
    ultimately have "of_int (2 ^ 52) \<le> y / f64_ulp y"
      by simp
    then have "2 ^ 52 \<le> round_half_even (y / f64_ulp y)"
      by (rule round_half_even_ge)
    then have "real_of_int (2 ^ 52) \<le> real_of_int (round_half_even (y / f64_ulp y))"
      by (simp only: of_int_le_iff)
    then have "2 ^ 52 \<le> real_of_int (round_half_even (y / f64_ulp y))"
      by simp
    then have "2 ^ 52 * f64_ulp y \<le> float64 y"
      using f64_ulp_pos [of y] by (simp add: float64_pos [OF ypos] mult_right_mono)
    moreover have "2 ^ 52 * f64_ulp y = 2 powi (?E y)"
      by (simp add: u power_int_diff)
    ultimately have right: "2 powi (?E y) \<le> float64 y"
      by simp
    from left right show ?thesis
      by simp
  qed
qed

lemma float64_mono:
  assumes "x \<le> y"
  shows "float64 x \<le> float64 y"
proof -
  consider "0 < x" | "x \<le> 0" "0 \<le> y" | "y < 0"
    using assms by linarith
  then show ?thesis
  proof cases
    case 1
    then show ?thesis
      using assms by (rule float64_mono_pos)
  next
    case 2
    then have "float64 x \<le> 0"
      using float64_nonneg [of "- x"] by (simp add: float64_minus)
    moreover have "0 \<le> float64 y"
      using 2 by (simp add: float64_nonneg)
    ultimately show ?thesis
      by simp
  next
    case 3
    then have "float64 (- y) \<le> float64 (- x)"
      using assms by (intro float64_mono_pos) simp_all
    then show ?thesis
      by (simp add: float64_minus)
  qed
qed

subsection \<open>Some binary64 values\<close>

lemma float64_bounds:
  "float64 (1 / 2) = 1 / 2" "float64 1 = 1" "float64 3 = 3" "float64 10 = 10"
  "float64 30 = 30" "float64 50 = 50" "float64 70 = 70" "float64 100 = 100"
  by (simp_all add: float64_lt1 [of 1] float64_ge1 [of 0] float64_ge1 [of 1] float64_ge1 [of 3]
        float64_ge1 [of 4] float64_ge1 [of 5] float64_ge1 [of 6] round_half_even_def Let_def)

text \<open>The literals \<open>0.005\<close>, \<open>0.05\<close>, \<open>0.10\<close> and \<open>0.30\<close>.\<close>

lemma float64_literals:
  "float64 (1 / 200) = 5764607523034235 / 1152921504606846976"
  "float64 (1 / 20) = 3602879701896397 / 72057594037927936"
  "float64 (1 / 10) = 3602879701896397 / 36028797018963968"
  "float64 (3 / 10) = 5404319552844595 / 18014398509481984"
  by (simp_all add: float64_lt1 [of 8] float64_lt1 [of 5] float64_lt1 [of 4] float64_lt1 [of 2]
        round_half_even_def Let_def)

lemma fmul_mono: "x \<le> y \<Longrightarrow> 0 \<le> c \<Longrightarrow> fmul x c \<le> fmul y c"
  by (simp add: fmul_def float64_mono mult_right_mono)

text \<open>The binary64 numbers between \<open>1 / 2 ^ k\<close> and \<open>2 / 2 ^ k\<close> are \<open>2 ^ (52 + k)\<close>-ths.\<close>

lemma is_float64_lt1:
  fixes k :: nat
  assumes "is_float64 p" and "1 / 2 ^ k \<le> p" and "p < 2 / 2 ^ k" and "k \<le> 1022"
  shows "\<exists>m::int. p = of_int m / 2 ^ (52 + k)"
  using assms(1) float64_lt1 [OF assms(2,3,4)] unfolding is_float64_def by metis

lemma is_float64_ge1:
  fixes k :: nat
  assumes "is_float64 p" and "2 ^ k \<le> p" and "p < 2 * 2 ^ k"
  shows "\<exists>m::int. p = of_int m * 2 ^ k / 2 ^ 52"
  using assms(1) float64_ge1 [OF assms(2,3)] unfolding is_float64_def by metis

text \<open>The float after the literal \<open>0.10\<close>, and the float after 1.\<close>

lemma float_above_tenth:
  assumes "is_float64 p" and "float64 0.10 < p"
  shows "7205759403792795 / 72057594037927936 \<le> p"
proof (cases "p < 2 / 2 ^ 4")
  case True
  have "1 / 2 ^ 4 \<le> p"
    using assms(2) by (simp add: float64_literals)
  then obtain m :: int where m: "p = of_int m / 2 ^ (52 + 4)"
    using is_float64_lt1 [OF assms(1) _ True] by auto
  have "real_of_int 7205759403792794 < of_int m"
    using assms(2) unfolding m by (simp add: float64_literals)
  then have "7205759403792794 < m"
    by (simp only: of_int_less_iff)
  then have "7205759403792795 \<le> m"
    by simp
  then have "real_of_int 7205759403792795 \<le> of_int m"
    by (simp only: of_int_le_iff)
  then show ?thesis
    unfolding m by simp
next
  case False
  then show ?thesis
    by simp
qed

lemma float_above_one:
  assumes "is_float64 q" and "1 < q"
  shows "4503599627370497 / 4503599627370496 \<le> q"
proof (cases "q < 2 * 2 ^ 0")
  case True
  have "2 ^ 0 \<le> q"
    using assms(2) by simp
  then obtain m :: int where m: "q = of_int m * 2 ^ 0 / 2 ^ 52"
    using is_float64_ge1 [OF assms(1) _ True] by auto
  have "real_of_int 4503599627370496 < of_int m"
    using assms(2) unfolding m by simp
  then have "4503599627370496 < m"
    by (simp only: of_int_less_iff)
  then have "4503599627370497 \<le> m"
    by simp
  then have "real_of_int 4503599627370497 \<le> of_int m"
    by (simp only: of_int_le_iff)
  then show ?thesis
    unfolding m by simp
next
  case False
  then show ?thesis
    by simp
qed

lemma fmul_100_above_tenth:
  assumes "is_float64 p" and "float64 0.10 < p"
  shows "10 < fmul p 100"
proof -
  have "fmul (7205759403792795 / 72057594037927936) 100 \<le> fmul p 100"
    using float_above_tenth [OF assms] by (intro fmul_mono) simp_all
  moreover have "fmul (7205759403792795 / 72057594037927936) 100
                   = 5629499534213121 / 562949953421312"
    by (simp add: fmul_def float64_ge1 [of 3] round_half_even_def Let_def)
  ultimately show ?thesis
    by simp
qed

lemma fmul_100_upto_tenth:
  assumes "p \<le> float64 0.10"
  shows "fmul p 100 \<le> 10"
proof -
  have "fmul p 100 \<le> fmul (float64 0.10) 100"
    using assms by (intro fmul_mono) simp_all
  moreover have "fmul (float64 0.10) 100 = 10"
    by (simp add: float64_literals fmul_def float64_ge1 [of 3] round_half_even_def Let_def)
  ultimately show ?thesis
    by simp
qed

lemma fmul_100_above_one:
  assumes "is_float64 q" and "1 < q"
  shows "100 < fmul q 100"
proof -
  have "fmul (4503599627370497 / 4503599627370496) 100 \<le> fmul q 100"
    using float_above_one [OF assms] by (intro fmul_mono) simp_all
  moreover have "fmul (4503599627370497 / 4503599627370496) 100
                   = 3518437208883201 / 35184372088832"
    by (simp add: fmul_def float64_ge1 [of 6] round_half_even_def Let_def)
  ultimately show ?thesis
    by simp
qed

lemma fmul_100_upto:
  assumes "p \<le> b / 100" and "float64 b = b"
  shows "fmul p 100 \<le> b"
proof -
  have "p * 100 \<le> b"
    using assms(1) by simp
  then have "float64 (p * 100) \<le> float64 b"
    by (rule float64_mono)
  then show ?thesis
    by (simp add: fmul_def assms(2))
qed

subsection \<open>Floats that are integers\<close>

lemma float64_of_nat:
  assumes "n < 2 ^ 53"
  shows "float64 (real n) = real n"
proof (cases "n = 0")
  case True
  then show ?thesis by simp
next
  case False
  then have "1 \<le> n" by simp
  then obtain k where k: "2 ^ k \<le> n" "n < 2 ^ (k + 1)"
    using ex_power_ivl1 [of 2 n] by auto
  have "(2::nat) ^ k < 2 ^ 53"
    using k(1) assms by simp
  then have "k < 53"
    by (rule power_less_imp_less_exp [rotated]) simp
  then have k52: "k \<le> 52"
    by simp
  have a: "(2::real) ^ k \<le> real n"
    using k(1) by (metis of_nat_le_iff of_nat_numeral of_nat_power)
  have b: "real n < 2 * 2 ^ k"
    using k(2) by (metis of_nat_less_iff of_nat_numeral of_nat_power power_add power_one_right mult.commute)
  have p: "(2::real) ^ 52 = 2 ^ (52 - k) * 2 ^ k"
    using k52 by (simp flip: power_add)
  have "real n * 2 ^ 52 / 2 ^ k = real_of_int (int n * 2 ^ (52 - k))"
    by (subst p) simp
  then have "round_half_even (real n * 2 ^ 52 / 2 ^ k) = int n * 2 ^ (52 - k)"
    by (simp only: round_half_even_of_int)
  then have "float64 (real n) = of_int (int n * 2 ^ (52 - k)) * 2 ^ k / 2 ^ 52"
    by (simp only: float64_ge1 [OF a b])
  also have "\<dots> = real n"
    by (subst p) simp
  finally show ?thesis .
qed

lemma float64_numeral [simp]:
  "(numeral w :: nat) < 2 ^ 53 \<Longrightarrow> float64 (numeral w) = numeral w"
  using float64_of_nat [of "numeral w"] by simp

lemma float64_1 [simp]: "float64 1 = 1"
  using float64_of_nat [of 1] by simp

lemmas f64_eval =
  float64_lt1 [of 1] float64_lt1 [of 2] float64_lt1 [of 3] float64_lt1 [of 4]
  float64_ge1 [of 0] float64_ge1 [of 1] float64_ge1 [of 2] float64_ge1 [of 3]
  float64_ge1 [of 4] float64_ge1 [of 5] float64_ge1 [of 6] float64_ge1 [of 7]
  float64_ge1 [of 8] float64_ge1 [of 9] round_half_even_def Let_def

subsection \<open>The floats around the bounds of the bands\<close>

lemma float_above:
  fixes k :: nat and M :: int
  assumes "is_float64 p" and "of_int M / 2 ^ (52 + k) < p"
    and "1 / 2 ^ k \<le> real_of_int M / 2 ^ (52 + k)"
    and "real_of_int (M + 1) / 2 ^ (52 + k) \<le> 2 / 2 ^ k" and "k \<le> 1022"
  shows "of_int (M + 1) / 2 ^ (52 + k) \<le> p"
proof (cases "p < 2 / 2 ^ k")
  case True
  have "1 / 2 ^ k \<le> p"
    using assms(2,3) by linarith
  then obtain m :: int where m: "p = of_int m / 2 ^ (52 + k)"
    using is_float64_lt1 [OF assms(1) _ True assms(5)] by auto
  have "real_of_int M / 2 ^ (52 + k) < real_of_int m / 2 ^ (52 + k)"
    using assms(2) unfolding m .
  then have "real_of_int M < real_of_int m"
    by (simp add: divide_less_cancel)
  then have "M < m"
    by (simp only: of_int_less_iff)
  then have "M + 1 \<le> m"
    by simp
  then have "real_of_int (M + 1) \<le> real_of_int m"
    by (simp only: of_int_le_iff)
  then show ?thesis
    unfolding m by (intro divide_right_mono) simp_all
next
  case False
  then show ?thesis
    using assms(4) by linarith
qed

lemma float64_edges:
  "float64 (1 / 200) = 5764607523034235 / 1152921504606846976"
  "float64 (1 / 100) = 5764607523034235 / 576460752303423488"
  "float64 (3 / 100) = 8646911284551352 / 288230376151711744"
  "float64 (1 / 10) = 7205759403792794 / 72057594037927936"
  "float64 (3 / 10) = 5404319552844595 / 18014398509481984"
  "float64 (7 / 10) = 6305039478318694 / 9007199254740992"
  by (simp_all add: float64_lt1 [of 8] float64_lt1 [of 7] float64_lt1 [of 6] float64_lt1 [of 4]
        float64_lt1 [of 2] float64_lt1 [of 1] round_half_even_def Let_def)

lemma above_edges:
  assumes "is_float64 p"
  shows "5764607523034235 / 1152921504606846976 < p
           \<Longrightarrow> 5764607523034236 / 1152921504606846976 \<le> p"
    and "5764607523034235 / 576460752303423488 < p
           \<Longrightarrow> 5764607523034236 / 576460752303423488 \<le> p"
    and "8646911284551352 / 288230376151711744 < p
           \<Longrightarrow> 8646911284551353 / 288230376151711744 \<le> p"
    and "7205759403792794 / 72057594037927936 < p
           \<Longrightarrow> 7205759403792795 / 72057594037927936 \<le> p"
    and "5404319552844595 / 18014398509481984 < p
           \<Longrightarrow> 5404319552844596 / 18014398509481984 \<le> p"
    and "4503599627370496 / 9007199254740992 < p
           \<Longrightarrow> 4503599627370497 / 9007199254740992 \<le> p"
    and "6305039478318694 / 9007199254740992 < p
           \<Longrightarrow> 6305039478318695 / 9007199254740992 \<le> p"
    and "6305039478318695 / 9007199254740992 < p
           \<Longrightarrow> 6305039478318696 / 9007199254740992 \<le> p"
proof -
  show "5764607523034235 / 1152921504606846976 < p
           \<Longrightarrow> 5764607523034236 / 1152921504606846976 \<le> p"
    using float_above [OF assms, of 5764607523034235 8] by simp
  show "5764607523034235 / 576460752303423488 < p
           \<Longrightarrow> 5764607523034236 / 576460752303423488 \<le> p"
    using float_above [OF assms, of 5764607523034235 7] by simp
  show "8646911284551352 / 288230376151711744 < p
           \<Longrightarrow> 8646911284551353 / 288230376151711744 \<le> p"
    using float_above [OF assms, of 8646911284551352 6] by simp
  show "7205759403792794 / 72057594037927936 < p
           \<Longrightarrow> 7205759403792795 / 72057594037927936 \<le> p"
    using float_above [OF assms, of 7205759403792794 4] by simp
  show "5404319552844595 / 18014398509481984 < p
           \<Longrightarrow> 5404319552844596 / 18014398509481984 \<le> p"
    using float_above [OF assms, of 5404319552844595 2] by simp
  show "4503599627370496 / 9007199254740992 < p
           \<Longrightarrow> 4503599627370497 / 9007199254740992 \<le> p"
    using float_above [OF assms, of 4503599627370496 1] by simp
  show "6305039478318694 / 9007199254740992 < p
           \<Longrightarrow> 6305039478318695 / 9007199254740992 \<le> p"
    using float_above [OF assms, of 6305039478318694 1] by simp
  show "6305039478318695 / 9007199254740992 < p
           \<Longrightarrow> 6305039478318696 / 9007199254740992 \<le> p"
    using float_above [OF assms, of 6305039478318695 1] by simp
qed

lemma band_edge:
  assumes "fmul B 100 = c" and "fmul N 100 = c'" and "c < c'" and "B < p \<Longrightarrow> N \<le> p"
  shows "(fmul p 100 \<le> c) = (p \<le> B)"
proof (cases "p \<le> B")
  case True
  then have "fmul p 100 \<le> fmul B 100"
    by (intro fmul_mono) simp_all
  then show ?thesis
    using True assms(1) by simp
next
  case False
  then have "N \<le> p"
    using assms(4) by simp
  then have "fmul N 100 \<le> fmul p 100"
    by (intro fmul_mono) simp_all
  then show ?thesis
    using False assms(2,3) by simp
qed

lemma fmul_edges:
  "fmul (5764607523034235 / 1152921504606846976) 100 = 1 / 2"
  "fmul (5764607523034236 / 1152921504606846976) 100 = 4503599627370497 / 9007199254740992"
  "fmul (5764607523034235 / 576460752303423488) 100 = 1"
  "fmul (5764607523034236 / 576460752303423488) 100 = 4503599627370497 / 4503599627370496"
  "fmul (8646911284551352 / 288230376151711744) 100 = 3"
  "fmul (8646911284551353 / 288230376151711744) 100 = 6755399441055745 / 2251799813685248"
  "fmul (7205759403792794 / 72057594037927936) 100 = 10"
  "fmul (7205759403792795 / 72057594037927936) 100 = 5629499534213121 / 562949953421312"
  "fmul (5404319552844595 / 18014398509481984) 100 = 30"
  "fmul (5404319552844596 / 18014398509481984) 100 = 8444249301319681 / 281474976710656"
  "fmul (4503599627370496 / 9007199254740992) 100 = 50"
  "fmul (4503599627370497 / 9007199254740992) 100 = 3518437208883201 / 70368744177664"
  "fmul (6305039478318695 / 9007199254740992) 100 = 70"
  "fmul (6305039478318696 / 9007199254740992) 100 = 4925812092436481 / 70368744177664"
  "fmul 1 100 = 100"
  "fmul (4503599627370497 / 4503599627370496) 100 = 3518437208883201 / 35184372088832"
  by (simp_all add: fmul_def f64_eval)

lemma band_edges:
  assumes "is_float64 p"
  shows "(fmul p 100 \<le> 1 / 2) = (p \<le> 5764607523034235 / 1152921504606846976)"
    and "(fmul p 100 \<le> 1) = (p \<le> 5764607523034235 / 576460752303423488)"
    and "(fmul p 100 \<le> 3) = (p \<le> 8646911284551352 / 288230376151711744)"
    and "(fmul p 100 \<le> 10) = (p \<le> 7205759403792794 / 72057594037927936)"
    and "(fmul p 100 \<le> 30) = (p \<le> 5404319552844595 / 18014398509481984)"
    and "(fmul p 100 \<le> 50) = (p \<le> 4503599627370496 / 9007199254740992)"
    and "(fmul p 100 \<le> 70) = (p \<le> 6305039478318695 / 9007199254740992)"
    and "(fmul p 100 \<le> 100) = (p \<le> 1)"
proof -
  show "(fmul p 100 \<le> 1 / 2) = (p \<le> 5764607523034235 / 1152921504606846976)"
    by (rule band_edge [OF fmul_edges(1) fmul_edges(2) _ above_edges(1) [OF assms]]) simp_all
  show "(fmul p 100 \<le> 1) = (p \<le> 5764607523034235 / 576460752303423488)"
    by (rule band_edge [OF fmul_edges(3) fmul_edges(4) _ above_edges(2) [OF assms]]) simp_all
  show "(fmul p 100 \<le> 3) = (p \<le> 8646911284551352 / 288230376151711744)"
    by (rule band_edge [OF fmul_edges(5) fmul_edges(6) _ above_edges(3) [OF assms]]) simp_all
  show "(fmul p 100 \<le> 10) = (p \<le> 7205759403792794 / 72057594037927936)"
    by (rule band_edge [OF fmul_edges(7) fmul_edges(8) _ above_edges(4) [OF assms]]) simp_all
  show "(fmul p 100 \<le> 30) = (p \<le> 5404319552844595 / 18014398509481984)"
    by (rule band_edge [OF fmul_edges(9) fmul_edges(10) _ above_edges(5) [OF assms]]) simp_all
  show "(fmul p 100 \<le> 50) = (p \<le> 4503599627370496 / 9007199254740992)"
    by (rule band_edge [OF fmul_edges(11) fmul_edges(12) _ above_edges(6) [OF assms]]) simp_all
  show "(fmul p 100 \<le> 70) = (p \<le> 6305039478318695 / 9007199254740992)"
    by (rule band_edge [OF fmul_edges(13) fmul_edges(14) _ above_edges(8) [OF assms]]) simp_all
  show "(fmul p 100 \<le> 100) = (p \<le> 1)"
    by (rule band_edge [OF fmul_edges(15) fmul_edges(16) _ float_above_one [OF assms]]) simp_all
qed

section \<open>Properties of the threshold policy\<close>

lemma classify_risk_bacen_chain:
  "(nivel_bacen (classify_risk_bacen p), provisao (classify_risk_bacen p)) =
     (let x = fmul p 100 in
      if x \<le> 1 / 2 then (''AA'', 0) else if x \<le> 1 then (''A'', 1 / 2)
      else if x \<le> 3 then (''B'', 1) else if x \<le> 10 then (''C'', 3)
      else if x \<le> 30 then (''D'', 10) else if x \<le> 50 then (''E'', 30)
      else if x \<le> 70 then (''F'', 50) else if x \<le> 100 then (''G'', 70)
      else (''H'', 100))"
  by (simp add: classify_risk_bacen_def Let_def)

lemma spec_tier_chain:
  "spec_tier p =
     (if p \<le> 5764607523034235 / 1152921504606846976 then (''AA'', 0)
      else if p \<le> 5764607523034235 / 576460752303423488 then (''A'', 1 / 2)
      else if p \<le> 8646911284551352 / 288230376151711744 then (''B'', 1)
      else if p \<le> 7205759403792794 / 72057594037927936 then (''C'', 3)
      else if p \<le> 5404319552844595 / 18014398509481984 then (''D'', 10)
      else if p \<le> 4503599627370496 / 9007199254740992 then (''E'', 30)
      else if p \<le> 6305039478318694 / 9007199254740992 then (''F'', 50)
      else if p \<le> 1 then (''G'', 70)
      else (''H'', 100))"
  by (simp add: spec_tier_def spec_bands_def float64_edges float64_bounds)

lemma classify_risk_bacen_float_chain:
  assumes "is_float64 p"
  shows "(nivel_bacen (classify_risk_bacen p), provisao (classify_risk_bacen p)) =
     (if p \<le> 5764607523034235 / 1152921504606846976 then (''AA'', 0)
      else if p \<le> 5764607523034235 / 576460752303423488 then (''A'', 1 / 2)
      else if p \<le> 8646911284551352 / 288230376151711744 then (''B'', 1)
      else if p \<le> 7205759403792794 / 72057594037927936 then (''C'', 3)
      else if p \<le> 5404319552844595 / 18014398509481984 then (''D'', 10)
      else if p \<le> 4503599627370496 / 9007199254740992 then (''E'', 30)
      else if p \<le> 6305039478318695 / 9007199254740992 then (''F'', 50)
      else if p \<le> 1 then (''G'', 70)
      else (''H'', 100))"
  unfolding classify_risk_bacen_chain Let_def
  by (simp only: band_edges [OF assms])

lemma value_above_070:
  "(nivel_bacen (classify_risk_bacen (6305039478318695 / 9007199254740992)),
    provisao (classify_risk_bacen (6305039478318695 / 9007199254740992))) = (''F'', 50)"
  by (simp add: classify_risk_bacen_def Let_def fmul_edges)

text \<open>
  Claim C8 (amended). For every float probability between 0 and 1 but one,
  \<open>classify_risk_bacen\<close> gives the tier and the provisioning percentage of the first band of
  the specification's table whose inclusive upper bound is at least the probability. The one
  exception is the float next above 0.70, which is 0.7000000000000001, that is
  \<open>6305039478318695 / 2 ^ 53\<close>: its float product with 100 is 70.0, so it is given tier F
  with 50 per cent, where the table has tier G with 70. The float 0.005 (0.5 per cent) is in
  tier AA, and every float beyond 1 is given the overflow tier H with 100 per cent.
\<close>

theorem classify_risk_bacen_first_band_floats:
  "is_float64 p \<Longrightarrow> 0 \<le> p \<Longrightarrow> p \<le> 1 \<Longrightarrow>
     (nivel_bacen (classify_risk_bacen p), provisao (classify_risk_bacen p))
       = (if p = 6305039478318695 / 9007199254740992 then (''F'', 50) else spec_tier p)
     \<and> nivel_bacen (classify_risk_bacen (float64 0.005)) = ''AA''
     \<and> (\<forall>q. is_float64 q \<and> 1 < q \<longrightarrow>
           (nivel_bacen (classify_risk_bacen q), provisao (classify_risk_bacen q)) = (''H'', 100))"
proof (intro conjI)
  assume f: "is_float64 p"
  show "(nivel_bacen (classify_risk_bacen p), provisao (classify_risk_bacen p))
       = (if p = 6305039478318695 / 9007199254740992 then (''F'', 50) else spec_tier p)"
  proof (cases "p = 6305039478318695 / 9007199254740992")
    case True
    then show ?thesis
      by (simp only: value_above_070 if_True simp_thms)
  next
    case False
    have "(p \<le> 6305039478318695 / 9007199254740992) = (p \<le> 6305039478318694 / 9007199254740992)"
      using above_edges(7) [OF f] False by linarith
    then show ?thesis
      using False by (simp only: classify_risk_bacen_float_chain [OF f] spec_tier_chain if_False)
  qed
  have "fmul (float64 (1 / 200)) 100 = 1 / 2"
    by (simp add: float64_edges fmul_edges)
  then show "nivel_bacen (classify_risk_bacen (float64 0.005)) = ''AA''"
    by (simp add: classify_risk_bacen_def Let_def)
  show "\<forall>q. is_float64 q \<and> 1 < q \<longrightarrow>
           (nivel_bacen (classify_risk_bacen q), provisao (classify_risk_bacen q)) = (''H'', 100)"
  proof (intro allI impI)
    fix q :: real
    assume "is_float64 q \<and> 1 < q"
    then have "100 < fmul q 100"
      using fmul_100_above_one by blast
    then show "(nivel_bacen (classify_risk_bacen q), provisao (classify_risk_bacen q))
                 = (''H'', 100)"
      by (simp add: classify_risk_bacen_def Let_def)
  qed
qed

theorem classify_risk_bacen_first_band_floats_witness:
  "is_float64 (float64 0.005) \<and> (0::real) \<le> float64 0.005 \<and> float64 0.005 \<le> (1::real)
   \<and> fmul (float64 0.005) 100 = 0.5
   \<and> (nivel_bacen (classify_risk_bacen (float64 0.005)),
        provisao (classify_risk_bacen (float64 0.005))) = (''AA'', 0)
   \<and> spec_tier (float64 0.005) = (''AA'', 0)"
proof -
  have f: "is_float64 (float64 0.005)"
    by (simp add: is_float64_def float64_edges float64_lt1 [of 8] round_half_even_def Let_def)
  have m: "fmul (float64 0.005) 100 = 0.5"
    by (simp add: float64_edges fmul_edges)
  have b: "(0::real) \<le> float64 0.005" "float64 0.005 \<le> (1::real)"
    by (simp_all add: float64_edges)
  have t: "spec_tier (float64 0.005) = (''AA'', 0)"
    by (simp add: spec_tier_chain float64_edges)
  have n: "float64 0.005 \<noteq> 6305039478318695 / 9007199254740992"
    by (simp add: float64_edges)
  show ?thesis
    using classify_risk_bacen_first_band_floats [OF f b] f m b t n by simp
qed

theorem classify_risk_bacen_above_070:
  "is_float64 (6305039478318695 / 9007199254740992)
   \<and> (0::real) \<le> 6305039478318695 / 9007199254740992
   \<and> (6305039478318695 / 9007199254740992 :: real) \<le> 1
   \<and> float64 0.70 < 6305039478318695 / 9007199254740992
   \<and> fmul (6305039478318695 / 9007199254740992) 100 = 70
   \<and> (nivel_bacen (classify_risk_bacen (6305039478318695 / 9007199254740992)),
        provisao (classify_risk_bacen (6305039478318695 / 9007199254740992))) = (''F'', 50)
   \<and> spec_tier (6305039478318695 / 9007199254740992) = (''G'', 70)"
proof -
  have m: "fmul (6305039478318695 / 9007199254740992) 100 = 70"
    by (rule fmul_edges)
  have f: "is_float64 (6305039478318695 / 9007199254740992)"
    by (simp add: is_float64_def float64_lt1 [of 1] round_half_even_def Let_def)
  have c: "(nivel_bacen (classify_risk_bacen (6305039478318695 / 9007199254740992)),
        provisao (classify_risk_bacen (6305039478318695 / 9007199254740992))) = (''F'', 50)"
    by (simp add: classify_risk_bacen_def Let_def m)
  have s: "spec_tier (6305039478318695 / 9007199254740992) = (''G'', 70)"
    by (simp add: spec_tier_chain)
  have l: "float64 0.70 < 6305039478318695 / 9007199254740992"
    by (simp add: float64_edges)
  show ?thesis
    using m f c s l by simp
qed

lemma nivel_upto_10:
  "(nivel_bacen (classify_risk_bacen p) \<in> {''AA'', ''A'', ''B'', ''C''}) = (fmul p 100 \<le> 10)"
  by (simp add: classify_risk_bacen_def Let_def)

lemma float64_005: "fmul (float64 0.05) 100 = 5"
  by (simp add: float64_literals fmul_def float64_ge1 [of 2] round_half_even_def Let_def)

text \<open>
  Claim C9. For every float probability between 0 and 1, \<open>_get_recommendation\<close> answers
  \<open>Aprovar\<close> exactly when \<open>classify_risk_bacen\<close> assigns one of the tiers AA, A, B, C; the
  probability 0.05 is approved and in that band, and \<open>Negar\<close> never comes with tier AA.
\<close>

theorem recommendation_agrees_with_tier:
  "is_float64 p \<Longrightarrow> 0 \<le> p \<Longrightarrow> p \<le> 1 \<Longrightarrow>
     (get_recommendation p = ''Aprovar'')
       = (nivel_bacen (classify_risk_bacen p) \<in> {''AA'', ''A'', ''B'', ''C''})
     \<and> get_recommendation (float64 0.05) = ''Aprovar''
     \<and> nivel_bacen (classify_risk_bacen (float64 0.05)) \<in> {''AA'', ''A'', ''B'', ''C''}
     \<and> \<not> (get_recommendation p = ''Negar'' \<and> nivel_bacen (classify_risk_bacen p) = ''AA'')"
proof (intro conjI)
  assume f: "is_float64 p"
  show e: "(get_recommendation p = ''Aprovar'')
       = (nivel_bacen (classify_risk_bacen p) \<in> {''AA'', ''A'', ''B'', ''C''})"
  proof (cases "p \<le> float64 0.10")
    case True
    then have "fmul p 100 \<le> 10"
      by (rule fmul_100_upto_tenth)
    then have "nivel_bacen (classify_risk_bacen p) \<in> {''AA'', ''A'', ''B'', ''C''}"
      using nivel_upto_10 [of p] by blast
    moreover have "get_recommendation p = ''Aprovar''"
      using True by (simp add: get_recommendation_def)
    ultimately show ?thesis
      by blast
  next
    case False
    then have "float64 0.10 < p"
      by simp
    then have "\<not> fmul p 100 \<le> 10"
      using fmul_100_above_tenth [OF f] by simp
    then have "\<not> nivel_bacen (classify_risk_bacen p) \<in> {''AA'', ''A'', ''B'', ''C''}"
      using nivel_upto_10 [of p] by blast
    moreover have "get_recommendation p \<noteq> ''Aprovar''"
      using False by (simp add: get_recommendation_def)
    ultimately show ?thesis
      by blast
  qed
  show "get_recommendation (float64 0.05) = ''Aprovar''"
    by (simp add: get_recommendation_def float64_literals)
  show "nivel_bacen (classify_risk_bacen (float64 0.05)) \<in> {''AA'', ''A'', ''B'', ''C''}"
    using nivel_upto_10 [of "float64 0.05"] float64_005 by simp
  show "\<not> (get_recommendation p = ''Negar'' \<and> nivel_bacen (classify_risk_bacen p) = ''AA'')"
  proof
    assume a: "get_recommendation p = ''Negar'' \<and> nivel_bacen (classify_risk_bacen p) = ''AA''"
    then have "nivel_bacen (classify_risk_bacen p) \<in> {''AA'', ''A'', ''B'', ''C''}"
      by simp
    then have "get_recommendation p = ''Aprovar''"
      using e by simp
    with a show False
      by simp
  qed
qed

theorem recommendation_agrees_with_tier_witness:
  "is_float64 (float64 0.2) \<and> (0::real) \<le> float64 0.2 \<and> float64 0.2 \<le> (1::real)
   \<and> get_recommendation (float64 0.2) = ''Revisar''
   \<and> nivel_bacen (classify_risk_bacen (float64 0.2)) = ''D''
   \<and> ((get_recommendation (float64 0.2) = ''Aprovar'')
        = (nivel_bacen (classify_risk_bacen (float64 0.2)) \<in> {''AA'', ''A'', ''B'', ''C''}))"
proof -
  have v: "float64 (1 / 5) = 3602879701896397 / 18014398509481984"
    by (simp add: float64_lt1 [of 3] round_half_even_def Let_def)
  have f: "is_float64 (float64 0.2)"
    by (simp add: is_float64_def v float64_lt1 [of 3] round_half_even_def Let_def)
  have b: "(0::real) \<le> float64 0.2" "float64 0.2 \<le> (1::real)"
    by (simp_all add: v)
  have m: "fmul (float64 0.2) 100 = 20"
    by (simp add: v fmul_def float64_ge1 [of 4] round_half_even_def Let_def)
  have r: "get_recommendation (float64 0.2) = ''Revisar''"
    by (simp add: get_recommendation_def v float64_literals)
  have n: "nivel_bacen (classify_risk_bacen (float64 0.2)) = ''D''"
    using m by (simp add: classify_risk_bacen_def Let_def)
  show ?thesis
    using recommendation_agrees_with_tier [OF f b] f b r n by simp
qed

text \<open>
  Claim C10. For every probability between 0 and 1, \<open>classify_risk_bacen\<close> returns one of the
  tiers AA to G and never H: tier H is returned exactly when the float product of the
  probability and 100 exceeds 100, which for a float probability is exactly when the
  probability exceeds 1.
\<close>

theorem classify_risk_bacen_never_H:
  "0 \<le> p \<Longrightarrow> p \<le> 1 \<Longrightarrow>
     nivel_bacen (classify_risk_bacen p) \<in> {''AA'', ''A'', ''B'', ''C'', ''D'', ''E'', ''F'', ''G''}
     \<and> nivel_bacen (classify_risk_bacen p) \<noteq> ''H''
     \<and> (\<forall>q. (nivel_bacen (classify_risk_bacen q) = ''H'') = (100 < fmul q 100))
     \<and> (\<forall>q. is_float64 q \<longrightarrow> (nivel_bacen (classify_risk_bacen q) = ''H'') = (1 < q))"
proof (intro conjI)
  assume "p \<le> 1"
  then have u: "fmul p 100 \<le> 100"
    using fmul_100_upto [of p 100] by (simp add: float64_bounds)
  then show "nivel_bacen (classify_risk_bacen p)
               \<in> {''AA'', ''A'', ''B'', ''C'', ''D'', ''E'', ''F'', ''G''}"
    by (simp add: classify_risk_bacen_def Let_def)
  show "nivel_bacen (classify_risk_bacen p) \<noteq> ''H''"
    using u by (simp add: classify_risk_bacen_def Let_def)
  show h: "\<forall>q. (nivel_bacen (classify_risk_bacen q) = ''H'') = (100 < fmul q 100)"
    by (simp add: classify_risk_bacen_def Let_def)
  show "\<forall>q. is_float64 q \<longrightarrow> (nivel_bacen (classify_risk_bacen q) = ''H'') = (1 < q)"
  proof (intro allI impI)
    fix q :: real
    assume f: "is_float64 q"
    show "(nivel_bacen (classify_risk_bacen q) = ''H'') = (1 < q)"
    proof (cases "1 < q")
      case True
      then show ?thesis
        using fmul_100_above_one [OF f] h by simp
    next
      case False
      then have "fmul q 100 \<le> 100"
        using fmul_100_upto [of q 100] by (simp add: float64_bounds)
      then show ?thesis
        using False h by simp
    qed
  qed
qed

theorem classify_risk_bacen_never_H_witness:
  "(0::real) \<le> 1 \<and> (1::real) \<le> 1 \<and> nivel_bacen (classify_risk_bacen 1) = ''G''
   \<and> nivel_bacen (classify_risk_bacen 1) \<noteq> ''H''"
  using classify_risk_bacen_never_H [of 1]
  by (simp add: classify_risk_bacen_def Let_def fmul_def float64_bounds)

section \<open>Rounding, the approval count and the cache\<close>

lemma py_round_mono:
  assumes "x \<le> y"
  shows "py_round x n \<le> py_round y n"
proof -
  have "x * 10 ^ n \<le> y * 10 ^ n"
    using assms by (simp add: mult_right_mono)
  then have "round_half_even (x * 10 ^ n) \<le> round_half_even (y * 10 ^ n)"
    by (rule round_half_even_mono)
  then have "real_of_int (round_half_even (x * 10 ^ n)) \<le> real_of_int (round_half_even (y * 10 ^ n))"
    by (simp only: of_int_le_iff)
  then show ?thesis
    unfolding py_round_def by (intro float64_mono divide_right_mono) simp_all
qed

lemma fdiv_mono: "x \<le> y \<Longrightarrow> 0 \<le> c \<Longrightarrow> fdiv x c \<le> fdiv y c"
  by (simp add: fdiv_def float64_mono divide_right_mono)

lemma mask_sum_aprovado_antimono:
  "t1 \<le> t2 \<Longrightarrow> mask_sum (aprovado_mask d t2) \<le> mask_sum (aprovado_mask d t1)"
  by (induction d) (auto simp: mask_sum_def aprovado_mask_def)

lemma taxaAprovacao_compute:
  "taxaAprovacao (compute_metrics d n v t) =
     py_round (if 0 < n then fmul (fdiv (of_int (mask_sum (aprovado_mask d t))) (of_int n)) 100
               else 0) 1"
  by (simp add: compute_metrics_def Let_def)

lemma compute_metrics_approval_antimono:
  assumes "t1 \<le> t2"
  shows "taxaAprovacao (compute_metrics d n v t2) \<le> taxaAprovacao (compute_metrics d n v' t1)"
proof -
  have "real_of_int (mask_sum (aprovado_mask d t2)) \<le> real_of_int (mask_sum (aprovado_mask d t1))"
    using mask_sum_aprovado_antimono [OF assms] by simp
  then show ?thesis
    unfolding taxaAprovacao_compute
    by (auto intro!: py_round_mono fmul_mono fdiv_mono)
qed


lemma get_from_cache_hit:
  "fst (get_from_cache c ttl k clk) = Some m \<Longrightarrow> \<exists>ts. c k = Some (m, ts)"
  by (auto simp: get_from_cache_def time_time_def Let_def split: option.splits prod.splits if_splits)

lemma get_from_cache_empty: "c k = None \<Longrightarrow> get_from_cache c ttl k clk = (None, clk)"
  by (simp add: get_from_cache_def)

lemma get_metrics_fst:
  "fst (get_metrics t s clk) =
     (case fst (get_from_cache (metrics_cache s) (cache_ttl s) (get_cache_key t) clk) of
        Some m \<Rightarrow> m
      | None \<Rightarrow>
          (case df_preprocessed s of
             None \<Rightarrow> get_empty_metrics
           | Some d \<Rightarrow>
               if d = [] then get_empty_metrics
               else compute_metrics d (total_clientes s) (valor_medio s) t))"
  by (simp add: get_metrics_def Let_def save_to_cache_def split: prod.splits option.splits)

lemma get_metrics_state:
  "fst (snd (get_metrics t s clk)) = s
   \<or> (\<exists>d ts. df_preprocessed s = Some d \<and> d \<noteq> []
        \<and> fst (snd (get_metrics t s clk)) =
            s\<lparr>metrics_cache := (metrics_cache s)
                 (get_cache_key t \<mapsto> (compute_metrics d (total_clientes s) (valor_medio s) t, ts))\<rparr>)"
  by (auto simp: get_metrics_def Let_def save_to_cache_def time_time_def
           split: prod.splits option.splits)

lemma get_confusion_matrix_fst:
  "fst (get_confusion_matrix t s clk) =
     (case fst (get_from_cache (confusion_cache s) (cache_ttl s) (get_cache_key t) clk) of
        Some c \<Rightarrow> c
      | None \<Rightarrow>
          (case df_preprocessed s of
             None \<Rightarrow> \<lparr>tp = 0, fp = 0, tn = 0, fn = 0, accuracy = None, precision = None,
                       recall = None, f1_score = None, cm_threshold = None\<rparr>
           | Some d \<Rightarrow> compute_confusion d t))"
  by (simp add: get_confusion_matrix_def Let_def save_to_cache_def split: prod.splits option.splits)

lemma get_confusion_matrix_state:
  "fst (snd (get_confusion_matrix t s clk)) = s
   \<or> (\<exists>d ts. df_preprocessed s = Some d
        \<and> fst (snd (get_confusion_matrix t s clk)) =
            s\<lparr>confusion_cache := (confusion_cache s)
                 (get_cache_key t \<mapsto> (compute_confusion d t, ts))\<rparr>)"
  by (auto simp: get_confusion_matrix_def Let_def save_to_cache_def time_time_def
           split: prod.splits option.splits)

lemma cache_inv_init: "cache_inv (init src)"
  by (cases src) (simp_all add: cache_inv_def init_def load_data_def preprocess_data_def)

lemma cache_inv_clear: "cache_inv s \<Longrightarrow> cache_inv (clear_cache s)"
  by (auto simp: cache_inv_def clear_cache_def split: option.splits)

lemma cache_inv_metrics_upd:
  assumes "cache_inv s" and "df_preprocessed s = Some d" and "d \<noteq> []"
  shows "cache_inv (s\<lparr>metrics_cache := (metrics_cache s)
            (get_cache_key t \<mapsto> (compute_metrics d (total_clientes s) (valor_medio s) t, ts))\<rparr>)"
  using assms by (auto simp: cache_inv_def)

lemma cache_inv_confusion_upd:
  assumes "cache_inv s" and "df_preprocessed s = Some d"
  shows "cache_inv (s\<lparr>confusion_cache := (confusion_cache s)
            (get_cache_key t \<mapsto> (compute_confusion d t, ts))\<rparr>)"
  using assms by (auto simp: cache_inv_def)

lemma cache_inv_get_metrics:
  assumes "cache_inv s"
  shows "cache_inv (fst (snd (get_metrics t s clk)))"
  using get_metrics_state [of t s clk] assms cache_inv_metrics_upd by auto

lemma cache_inv_get_confusion_matrix:
  assumes "cache_inv s"
  shows "cache_inv (fst (snd (get_confusion_matrix t s clk)))"
  using get_confusion_matrix_state [of t s clk] assms cache_inv_confusion_upd by auto

lemma cache_inv_optimize_loop:
  "cache_inv s \<Longrightarrow> cache_inv (fst (snd (optimize_loop obj ths bt bv rs s clk)))"
proof (induction ths arbitrary: bt bv rs s clk)
  case Nil
  then show ?case by simp
next
  case (Cons thr ths)
  obtain m s1 clk1 where g: "get_metrics thr s clk = (m, s1, clk1)"
    by (cases "get_metrics thr s clk") auto
  have "cache_inv s1"
    using cache_inv_get_metrics [OF Cons.prems, of thr clk] g by simp
  then show ?case
    using g Cons.IH by (simp add: Let_def)
qed

lemma cache_inv_optimize_threshold:
  assumes "cache_inv s"
  shows "cache_inv (fst (snd (optimize_threshold obj s clk)))"
proof (cases "df_preprocessed s")
  case None
  then show ?thesis using assms by (simp add: optimize_threshold_def)
next
  case (Some d)
  obtain bt bv rs s1 clk1
    where l: "optimize_loop obj (linspace (float64 0.1) (float64 0.9) 9) 0.5 NegInf [] s clk = ((bt, bv, rs), s1, clk1)"
    by (cases "optimize_loop obj (linspace (float64 0.1) (float64 0.9) 9) 0.5 NegInf [] s clk") auto
  have "cache_inv s1"
    using cache_inv_optimize_loop [OF assms, of obj "linspace (float64 0.1) (float64 0.9) 9" "0.5" NegInf "[]" clk] l
    by simp
  then have "cache_inv (fst (snd (get_metrics bt s1 clk1)))"
    by (rule cache_inv_get_metrics)
  then show ?thesis
    using Some l by (auto simp: optimize_threshold_def split: prod.splits)
qed

lemma reachable_cache_inv: "reachable s \<Longrightarrow> cache_inv s"
  by (induction rule: reachable.induct)
     (simp_all add: cache_inv_init cache_inv_get_metrics cache_inv_get_confusion_matrix
        cache_inv_optimize_threshold cache_inv_clear)

section \<open>Properties of the metrics engine\<close>

lemma get_metrics_no_rows:
  assumes "cache_inv s" and "df_preprocessed s = None \<or> df_preprocessed s = Some []"
  shows "get_metrics t s clk = (get_empty_metrics, s, clk)"
proof -
  have "metrics_cache s = Map.empty"
    using assms by (auto simp: cache_inv_def)
  then show ?thesis
    using assms(2) by (auto simp: get_metrics_def get_from_cache_def Let_def)
qed

text \<open>
  Claim C5. In every state of the service whose table failed to load or has no rows,
  \<open>get_metrics\<close> at any threshold returns the empty snapshot, leaves the state as it is, and
  raises nothing (the model has no failure branch); every aggregate of the empty snapshot,
  counts, rates, revenue, losses, missed opportunity, avoided losses and average exposure, is 0.
\<close>

theorem get_metrics_empty_population:
  "reachable s \<Longrightarrow> df_preprocessed s = None \<or> df_preprocessed s = Some [] \<Longrightarrow>
     get_metrics t s clk = (get_empty_metrics, s, clk)
     \<and> saldoLiquido get_empty_metrics = 0 \<and> taxaAprovacao get_empty_metrics = 0
     \<and> taxaInadimplencia get_empty_metrics = 0 \<and> totalClientes get_empty_metrics = 0
     \<and> clientesAprovados get_empty_metrics = 0 \<and> clientesRejeitados get_empty_metrics = 0
     \<and> receitaTotal get_empty_metrics = 0 \<and> perdasInadimplencia get_empty_metrics = 0
     \<and> oportunidadesPerdidas get_empty_metrics = 0 \<and> perdasEvitadas get_empty_metrics = 0
     \<and> valorMedio get_empty_metrics = 0"
  using get_metrics_no_rows [OF reachable_cache_inv]
  by (simp add: get_empty_metrics_def)

theorem get_metrics_empty_population_witness:
  "reachable (init FileMissing) \<and> df_preprocessed (init FileMissing) = None
   \<and> reachable (init (Table [])) \<and> df_preprocessed (init (Table [])) = Some []
   \<and> fst (get_metrics 0.75 (init FileMissing) clock0) = get_empty_metrics
   \<and> fst (get_metrics 0.75 (init (Table [])) clock0) = get_empty_metrics"
proof -
  have r1: "reachable (init FileMissing)" and r2: "reachable (init (Table []))"
    by (rule reachable_init)+
  have d1: "df_preprocessed (init FileMissing) = None"
    by (simp add: init_def load_data_def)
  have d2: "df_preprocessed (init (Table [])) = Some []"
    by (simp add: init_def load_data_def preprocess_data_def)
  show ?thesis
    using get_metrics_empty_population [OF r1, of "0.75" clock0]
      get_metrics_empty_population [OF r2, of "0.75" clock0] r1 r2 d1 d2
    by simp
qed

lemma compute_metrics_partition:
  "clientesAprovados (compute_metrics d n v t) + clientesRejeitados (compute_metrics d n v t) = n"
  by (simp add: compute_metrics_def Let_def)

lemma confusion_cells_partition:
  "\<forall>r\<in>set d. inadimplente r = 0 \<or> inadimplente r = 1 \<Longrightarrow>
     tp (compute_confusion d t) + fp (compute_confusion d t)
       + tn (compute_confusion d t) + fn (compute_confusion d t) = int (length d)"
  by (induction d)
     (auto simp: compute_confusion_def Let_def mask_sum_def mask_and_def mask_not_def aprovado_mask_def)

lemma cache_inv_metrics_entry:
  assumes "cache_inv s" and "df_preprocessed s = Some d" and "metrics_cache s k = Some (m, ts)"
  shows "\<exists>t. get_cache_key t = k \<and> m = compute_metrics d (total_clientes s) (valor_medio s) t"
  using assms by (auto simp: cache_inv_def)

lemma cache_inv_confusion_entry:
  assumes "cache_inv s" and "df_preprocessed s = Some d" and "confusion_cache s k = Some (c, ts)"
  shows "\<exists>t. get_cache_key t = k \<and> c = compute_confusion d t"
  using assms by (auto simp: cache_inv_def)

lemma get_metrics_result:
  assumes "cache_inv s" and "df_preprocessed s = Some d" and "d \<noteq> []"
  shows "\<exists>t'. get_cache_key t' = get_cache_key t
            \<and> fst (get_metrics t s clk) = compute_metrics d (total_clientes s) (valor_medio s) t'
            \<and> (fst (get_from_cache (metrics_cache s) (cache_ttl s) (get_cache_key t) clk) = None
                 \<longrightarrow> t' = t)"
proof (cases "fst (get_from_cache (metrics_cache s) (cache_ttl s) (get_cache_key t) clk)")
  case None
  then show ?thesis
    using assms by (auto simp: get_metrics_fst)
next
  case (Some m)
  then obtain ts where "metrics_cache s (get_cache_key t) = Some (m, ts)"
    using get_from_cache_hit by fastforce
  then obtain t' where "get_cache_key t' = get_cache_key t"
    and "m = compute_metrics d (total_clientes s) (valor_medio s) t'"
    using cache_inv_metrics_entry [OF assms(1,2)] by blast
  then show ?thesis
    using Some by (auto simp: get_metrics_fst)
qed

lemma get_confusion_matrix_result:
  assumes "cache_inv s" and "df_preprocessed s = Some d"
  shows "\<exists>t'. get_cache_key t' = get_cache_key t
            \<and> fst (get_confusion_matrix t s clk) = compute_confusion d t'
            \<and> (fst (get_from_cache (confusion_cache s) (cache_ttl s) (get_cache_key t) clk) = None
                 \<longrightarrow> t' = t)"
proof (cases "fst (get_from_cache (confusion_cache s) (cache_ttl s) (get_cache_key t) clk)")
  case None
  then show ?thesis
    using assms by (auto simp: get_confusion_matrix_fst)
next
  case (Some c)
  then obtain ts where "confusion_cache s (get_cache_key t) = Some (c, ts)"
    using get_from_cache_hit by fastforce
  then obtain t' where "get_cache_key t' = get_cache_key t" and "c = compute_confusion d t'"
    using cache_inv_confusion_entry [OF assms(1,2)] by blast
  then show ?thesis
    using Some by (auto simp: get_confusion_matrix_fst)
qed

text \<open>
  Claim C3. In every state of the service with a loaded table whose column \<open>inadimplente\<close>
  holds only 0 and 1, at every threshold: \<open>get_metrics\<close> gives
  \<open>clientesAprovados + clientesRejeitados\<close> equal to the number of rows, and
  \<open>get_confusion_matrix\<close> gives \<open>tp + fp + tn + fn\<close> equal to the number of rows.
\<close>

theorem partition_completeness:
  assumes "reachable s" and "df_preprocessed s = Some d"
    and "\<forall>r\<in>set d. inadimplente r = 0 \<or> inadimplente r = 1"
  shows "clientesAprovados (fst (get_metrics t s clk))
           + clientesRejeitados (fst (get_metrics t s clk)) = int (length d)
         \<and> tp (fst (get_confusion_matrix t s clk)) + fp (fst (get_confusion_matrix t s clk))
           + tn (fst (get_confusion_matrix t s clk)) + fn (fst (get_confusion_matrix t s clk))
           = int (length d)"
proof -
  have inv: "cache_inv s"
    using assms(1) by (rule reachable_cache_inv)
  then have n: "total_clientes s = int (length d)"
    using assms(2) by (simp add: cache_inv_def)
  have m: "clientesAprovados (fst (get_metrics t s clk))
             + clientesRejeitados (fst (get_metrics t s clk)) = int (length d)"
  proof (cases "d = []")
    case True
    then show ?thesis
      using get_metrics_no_rows [OF inv, of t clk] assms(2) by (simp add: get_empty_metrics_def)
  next
    case False
    then show ?thesis
      using get_metrics_result [OF inv assms(2), of t clk] n
      by (auto simp: compute_metrics_partition)
  qed
  have c: "tp (fst (get_confusion_matrix t s clk)) + fp (fst (get_confusion_matrix t s clk))
           + tn (fst (get_confusion_matrix t s clk)) + fn (fst (get_confusion_matrix t s clk))
           = int (length d)"
    using get_confusion_matrix_result [OF inv assms(2), of t clk]
      confusion_cells_partition [OF assms(3)]
    by auto
  from m c show ?thesis by simp
qed


lemma float64_scores:
  "float64 (1 / 5) = 3602879701896397 / 18014398509481984"
  "float64 (7 / 10) = 3152519739159347 / 4503599627370496"
  "float64 (9 / 10) = 8106479329266893 / 9007199254740992"
  "float64 (4 / 5) = 3602879701896397 / 4503599627370496"
  by (simp_all add: f64_eval)

lemma init_population4:
  "df_preprocessed (init (Table population4)) = Some (map normalize_row population4)"
  "metrics_cache (init (Table population4)) = Map.empty"
  "confusion_cache (init (Table population4)) = Map.empty"
  "total_clientes (init (Table population4)) = 4"
  "valor_medio (init (Table population4)) = 250"
  "cache_ttl (init (Table population4)) = 300"
  by (simp_all add: init_def load_data_def preprocess_data_def population4_def mean_def
        column_sum_def fdiv_def)

lemma rows_population4:
  "map normalize_row population4 =
     [\<lparr>score = 430, inadimplente = 1, ticket = 100, score_normalizado = float64 0.2\<rparr>,
      \<lparr>score = 625, inadimplente = 0, ticket = 200, score_normalizado = 0.5\<rparr>,
      \<lparr>score = 755, inadimplente = 0, ticket = 300, score_normalizado = float64 0.7\<rparr>,
      \<lparr>score = 885, inadimplente = 1, ticket = 400, score_normalizado = float64 0.9\<rparr>]"
  by (simp add: population4_def normalize_row_def fdiv_def fsub_def f64_eval)

lemma init_population2:
  "df_preprocessed (init (Table population2)) = Some (map normalize_row population2)"
  "metrics_cache (init (Table population2)) = Map.empty"
  "confusion_cache (init (Table population2)) = Map.empty"
  "total_clientes (init (Table population2)) = 2"
  "valor_medio (init (Table population2)) = 250"
  "cache_ttl (init (Table population2)) = 300"
  by (simp_all add: init_def load_data_def preprocess_data_def population2_def mean_def
        column_sum_def fdiv_def)

lemma rows_population2:
  "map normalize_row population2 =
     [\<lparr>score = 430, inadimplente = 0, ticket = 100, score_normalizado = float64 0.2\<rparr>,
      \<lparr>score = 885, inadimplente = 1, ticket = 400, score_normalizado = float64 0.9\<rparr>]"
  by (simp add: population2_def normalize_row_def fdiv_def fsub_def f64_eval)

theorem partition_completeness_witness:
  "reachable (init (Table population4))
   \<and> df_preprocessed (init (Table population4)) = Some (map normalize_row population4)
   \<and> map inadimplente (map normalize_row population4) = [1, 0, 0, 1]
   \<and> clientesAprovados (fst (get_metrics 0.5 (init (Table population4)) clock0))
       + clientesRejeitados (fst (get_metrics 0.5 (init (Table population4)) clock0)) = 4
   \<and> tp (fst (get_confusion_matrix 0.5 (init (Table population4)) clock0))
       + fp (fst (get_confusion_matrix 0.5 (init (Table population4)) clock0))
       + tn (fst (get_confusion_matrix 0.5 (init (Table population4)) clock0))
       + fn (fst (get_confusion_matrix 0.5 (init (Table population4)) clock0)) = 4"
proof -
  have r: "reachable (init (Table population4))"
    by (rule reachable_init)
  have b: "\<forall>r\<in>set (map normalize_row population4). inadimplente r = 0 \<or> inadimplente r = 1"
    by (simp add: rows_population4)
  have n: "length population4 = 4"
    by (simp add: population4_def)
  have c: "map inadimplente (map normalize_row population4) = [1, 0, 0, 1]"
    by (simp only: rows_population4) simp
  show ?thesis
    using partition_completeness [OF r init_population4(1) b, of "0.5" clock0] r c n
    by (simp add: init_population4(1))
qed

lemma np_round_50_100:
  "np_round (fmul (fdiv 1 2) 100) (Suc 0) = 50" "np_round (fmul (fdiv 1 1) 100) (Suc 0) = 100"
  by (simp_all add: np_round_def fmul_def fdiv_def f64_eval)

lemma metrics_population2:
  "taxaInadimplencia (fst (get_metrics (float64 0.1) (init (Table population2)) clock0)) = 50"
  "taxaInadimplencia (fst (get_metrics 0.5 (init (Table population2)) clock0)) = 100"
  by (simp_all add: get_metrics_fst get_from_cache_def init_population2 rows_population2
        compute_metrics_def aprovado_mask_def mask_sum_def mask_and_def mask_not_def loc_def
        Let_def float64_scores float64_literals np_round_50_100)

theorem default_rate_not_antimono:
  "float64 0.1 \<le> 0.5
   \<and> \<not> taxaInadimplencia (fst (get_metrics 0.5 (init (Table population2)) clock0))
         \<le> taxaInadimplencia (fst (get_metrics (float64 0.1) (init (Table population2)) clock0))"
  using metrics_population2 by (simp add: float64_literals)

lemma get_cache_key_mono: "t1 \<le> t2 \<Longrightarrow> get_cache_key t1 \<le> get_cache_key t2"
  by (simp add: get_cache_key_def py_round_mono)

text \<open>
  Claim C2 (amended). In every state of the service, the approval rate \<open>taxaAprovacao\<close> returned
  by \<open>get_metrics\<close> is non-increasing in the threshold. The default rate among the approved,
  \<open>taxaInadimplencia\<close>, is not: on the table of two rows above it rises from 50 to 100
  between the thresholds 0.1 and 0.5.
\<close>

theorem approval_rate_antimono:
  assumes "reachable s" and "t1 \<le> t2"
  shows "taxaAprovacao (fst (get_metrics t2 s clk)) \<le> taxaAprovacao (fst (get_metrics t1 s clk))"
proof -
  have inv: "cache_inv s"
    using assms(1) by (rule reachable_cache_inv)
  show ?thesis
  proof (cases "df_preprocessed s = None \<or> df_preprocessed s = Some []")
    case True
    then have "get_metrics t1 s clk = (get_empty_metrics, s, clk)"
      and "get_metrics t2 s clk = (get_empty_metrics, s, clk)"
      using get_metrics_no_rows [OF inv] by blast+
    then show ?thesis
      by simp
  next
    case False
    then obtain d where d: "df_preprocessed s = Some d" "d \<noteq> []"
      by auto
    let ?look = "\<lambda>t. fst (get_from_cache (metrics_cache s) (cache_ttl s) (get_cache_key t) clk)"
    let ?c = "compute_metrics d (total_clientes s) (valor_medio s)"
    obtain u1 where u1: "get_cache_key u1 = get_cache_key t1"
        "fst (get_metrics t1 s clk) = ?c u1" "?look t1 = None \<longrightarrow> u1 = t1"
      using get_metrics_result [OF inv d, of t1 clk] by (elim exE conjE) (rule that)
    obtain u2 where u2: "get_cache_key u2 = get_cache_key t2"
        "fst (get_metrics t2 s clk) = ?c u2" "?look t2 = None \<longrightarrow> u2 = t2"
      using get_metrics_result [OF inv d, of t2 clk] by (elim exE conjE) (rule that)
    show ?thesis
    proof (cases "get_cache_key t1 = get_cache_key t2")
      case same: True
      show ?thesis
      proof (cases "?look t1")
        case None
        then have "u1 = t1" and "u2 = t2"
          using u1(3) u2(3) same by simp_all
        then have "fst (get_metrics t1 s clk) = ?c t1" and "fst (get_metrics t2 s clk) = ?c t2"
          using u1(2) u2(2) by simp_all
        then show ?thesis
          by (simp only: compute_metrics_approval_antimono [OF assms(2)])
      next
        case (Some m)
        then show ?thesis
          using same by (simp add: get_metrics_fst)
      qed
    next
      case False
      then have lt: "get_cache_key u1 < get_cache_key u2"
        using get_cache_key_mono [OF assms(2)] u1(1) u2(1) by simp
      have "u1 \<le> u2"
      proof (rule ccontr)
        assume "\<not> u1 \<le> u2"
        then have "u2 \<le> u1" by simp
        then have "get_cache_key u2 \<le> get_cache_key u1"
          by (rule get_cache_key_mono)
        with lt show False by simp
      qed
      then show ?thesis
        by (simp only: u1(2) u2(2) compute_metrics_approval_antimono)
    qed
  qed
qed


lemma py_round_75_25:
  "py_round (fmul (fdiv 3 4) 100) (Suc 0) = 75" "py_round (fmul (fdiv 1 4) 100) (Suc 0) = 25"
  by (simp_all add: py_round_def fmul_def fdiv_def f64_eval)

theorem approval_rate_antimono_witness:
  "reachable (init (Table population4)) \<and> 0.5 \<le> float64 0.8
   \<and> taxaAprovacao (fst (get_metrics 0.5 (init (Table population4)) clock0)) = 75
   \<and> taxaAprovacao (fst (get_metrics (float64 0.8) (init (Table population4)) clock0)) = 25
   \<and> taxaAprovacao (fst (get_metrics (float64 0.8) (init (Table population4)) clock0))
       \<le> taxaAprovacao (fst (get_metrics 0.5 (init (Table population4)) clock0))"
proof -
  have r: "reachable (init (Table population4))"
    by (rule reachable_init)
  have le: "0.5 \<le> float64 0.8"
    by (simp add: float64_scores)
  have v: "taxaAprovacao (fst (get_metrics 0.5 (init (Table population4)) clock0)) = 75"
    "taxaAprovacao (fst (get_metrics (float64 0.8) (init (Table population4)) clock0)) = 25"
    by (simp_all add: get_metrics_fst get_from_cache_def init_population4 rows_population4
        taxaAprovacao_compute aprovado_mask_def mask_sum_def float64_scores py_round_75_25)
  show ?thesis
    using approval_rate_antimono [OF r le, of clock0] r v le by simp
qed

lemma np_round_third: "np_round (fmul (fdiv 1 3) 100) (Suc 0) = float64 (333 / 10)"
  by (simp add: np_round_def fmul_def fdiv_def f64_eval)

lemma get_metrics_miss:
  assumes "df_preprocessed s = Some d" and "d \<noteq> []"
    and "metrics_cache s (get_cache_key t) = None"
  shows "fst (get_metrics t s clk) = compute_metrics d (total_clientes s) (valor_medio s) t"
  using assms by (simp add: get_metrics_fst get_from_cache_empty)

lemma get_confusion_matrix_miss:
  assumes "df_preprocessed s = Some d" and "confusion_cache s (get_cache_key t) = None"
  shows "fst (get_confusion_matrix t s clk) = compute_confusion d t"
  using assms by (simp add: get_confusion_matrix_fst get_from_cache_empty)

lemma four_rows:
  assumes "map score_normalizado d = [a0, a1, a2, a3]"
    and "map inadimplente d = [b0, b1, b2, b3]"
    and "map ticket d = [c0, c1, c2, c3]"
  shows "\<exists>r0 r1 r2 r3. d = [r0, r1, r2, r3]
           \<and> score_normalizado r0 = a0 \<and> score_normalizado r1 = a1
           \<and> score_normalizado r2 = a2 \<and> score_normalizado r3 = a3
           \<and> inadimplente r0 = b0 \<and> inadimplente r1 = b1
           \<and> inadimplente r2 = b2 \<and> inadimplente r3 = b3
           \<and> ticket r0 = c0 \<and> ticket r1 = c1 \<and> ticket r2 = c2 \<and> ticket r3 = c3"
  using assms by (auto simp: map_eq_Cons_conv)

lemma compute_metrics_example:
  assumes "map score_normalizado d = [float64 0.2, 0.5, float64 0.7, float64 0.9]"
    and "map inadimplente d = [1, 0, 0, 1]"
    and "map ticket d = [100, 200, 300, 400]"
  shows "compute_metrics d 4 v 0.5 =
           \<lparr>saldoLiquido = 500, taxaAprovacao = 75, taxaInadimplencia = float64 33.3, totalClientes = 4,
            clientesAprovados = 3, clientesRejeitados = 1, receitaTotal = 900,
            perdasInadimplencia = 400, oportunidadesPerdidas = 0, perdasEvitadas = 100,
            valorMedio = v, threshold = 0.5\<rparr>"
    and "aprovado_mask d 0.5 = [False, True, True, True]"
proof -
  obtain r0 r1 r2 r3 where d: "d = [r0, r1, r2, r3]"
    and f: "score_normalizado r0 = float64 0.2" "score_normalizado r1 = 0.5"
      "score_normalizado r2 = float64 0.7" "score_normalizado r3 = float64 0.9"
      "inadimplente r0 = 1" "inadimplente r1 = 0" "inadimplente r2 = 0" "inadimplente r3 = 1"
      "ticket r0 = 100" "ticket r1 = 200" "ticket r2 = 300" "ticket r3 = 400"
    using four_rows [OF assms] by (elim exE conjE) (rule that)
  show "aprovado_mask d 0.5 = [False, True, True, True]"
    by (simp add: d f aprovado_mask_def float64_scores)
  then show "compute_metrics d 4 v 0.5 =
           \<lparr>saldoLiquido = 500, taxaAprovacao = 75, taxaInadimplencia = float64 33.3, totalClientes = 4,
            clientesAprovados = 3, clientesRejeitados = 1, receitaTotal = 900,
            perdasInadimplencia = 400, oportunidadesPerdidas = 0, perdasEvitadas = 100,
            valorMedio = v, threshold = 0.5\<rparr>"
    by (simp add: compute_metrics_def d f mask_sum_def mask_and_def mask_not_def loc_def
        Let_def column_sum_def fsub_def py_round_75_25 np_round_third)
qed

text \<open>
  Claim C1. In a state of the service whose table has the four rows with normalized scores
  0.2, 0.5, 0.7, 0.9 (as floats), outcomes 1, 0, 0, 1 and tickets 100, 200, 300, 400, and
  nothing cached for the threshold, \<open>get_metrics\<close> at 0.5 approves the rows 1, 2 and 3 and
  returns 3 approved, 1 rejected, a default rate of 33.3, revenue 900, default losses 400, net
  balance 500, missed opportunity 0 and avoided losses 100.
\<close>

theorem get_metrics_example:
  assumes "reachable s" and "df_preprocessed s = Some d"
    and "map score_normalizado d = [float64 0.2, 0.5, float64 0.7, float64 0.9]"
    and "map inadimplente d = [1, 0, 0, 1]"
    and "map ticket d = [100, 200, 300, 400]"
    and "metrics_cache s (get_cache_key 0.5) = None"
  shows "aprovado_mask d 0.5 = [False, True, True, True]
         \<and> fst (get_metrics 0.5 s clk) =
           \<lparr>saldoLiquido = 500, taxaAprovacao = 75, taxaInadimplencia = float64 33.3, totalClientes = 4,
            clientesAprovados = 3, clientesRejeitados = 1, receitaTotal = 900,
            perdasInadimplencia = 400, oportunidadesPerdidas = 0, perdasEvitadas = 100,
            valorMedio = valor_medio s, threshold = 0.5\<rparr>"
proof -
  have "length (map ticket d) = 4"
    by (simp only: assms(5)) simp
  then have len: "length d = 4"
    by simp
  then have ne: "d \<noteq> []"
    by auto
  have "total_clientes s = int (length d)"
    using reachable_cache_inv [OF assms(1)] assms(2) by (simp add: cache_inv_def)
  then have n: "total_clientes s = 4"
    using len by simp
  have "fst (get_metrics 0.5 s clk) = compute_metrics d 4 (valor_medio s) 0.5"
    using get_metrics_miss [OF assms(2) ne assms(6), of clk] n by simp
  then show ?thesis
    using compute_metrics_example(1) [OF assms(3,4,5), of "valor_medio s"]
      compute_metrics_example(2) [OF assms(3,4,5)] by simp
qed

theorem get_metrics_example_witness:
  "reachable (init (Table population4))
   \<and> df_preprocessed (init (Table population4)) = Some (map normalize_row population4)
   \<and> map score_normalizado (map normalize_row population4) = [float64 0.2, 0.5, float64 0.7, float64 0.9]
   \<and> map inadimplente (map normalize_row population4) = [1, 0, 0, 1]
   \<and> map ticket (map normalize_row population4) = [100, 200, 300, 400]
   \<and> metrics_cache (init (Table population4)) (get_cache_key 0.5) = None
   \<and> fst (get_metrics 0.5 (init (Table population4)) clock0) =
           \<lparr>saldoLiquido = 500, taxaAprovacao = 75, taxaInadimplencia = float64 33.3, totalClientes = 4,
            clientesAprovados = 3, clientesRejeitados = 1, receitaTotal = 900,
            perdasInadimplencia = 400, oportunidadesPerdidas = 0, perdasEvitadas = 100,
            valorMedio = 250, threshold = 0.5\<rparr>"
proof -
  have r: "reachable (init (Table population4))"
    by (rule reachable_init)
  have c: "map score_normalizado (map normalize_row population4) = [float64 0.2, 0.5, float64 0.7, float64 0.9]"
    "map inadimplente (map normalize_row population4) = [1, 0, 0, 1]"
    "map ticket (map normalize_row population4) = [100, 200, 300, 400]"
    by (simp_all only: rows_population4) simp_all
  have k: "metrics_cache (init (Table population4)) (get_cache_key 0.5) = None"
    by (simp add: init_population4)
  show ?thesis
    using get_metrics_example [OF r init_population4(1) c k, of clock0] r c k
    by (simp add: init_population4)
qed

lemma roc_mask_complement: "roc_rejeitado_mask d t = mask_not (aprovado_mask d t)"
  by (simp add: roc_rejeitado_mask_def mask_not_def aprovado_mask_def not_le)

lemma roc_counts_confusion:
  "roc_counts d t = (tp (compute_confusion d t), fp (compute_confusion d t))"
  by (simp add: roc_counts_def compute_confusion_def Let_def roc_mask_complement)

text \<open>
  Claim C7. At every threshold the rejected mask of the ROC sweep (\<open>score_normalizado < t\<close>)
  is the complement, row by row, of the approval mask of \<open>get_metrics\<close> and
  \<open>get_confusion_matrix\<close> (\<open>score_normalizado >= t\<close>); so the counts \<open>tp\<close> and \<open>fp\<close> of the
  sweep at a threshold are the cells \<open>tp\<close> and \<open>fp\<close> that \<open>get_confusion_matrix\<close> computes at
  that threshold.
\<close>

theorem roc_rejected_complements_approved:
  "roc_rejeitado_mask d t = mask_not (aprovado_mask d t)
   \<and> (\<forall>i<length d. roc_rejeitado_mask d t ! i = (\<not> aprovado_mask d t ! i))
   \<and> roc_counts d t = (tp (compute_confusion d t), fp (compute_confusion d t))
   \<and> (df_preprocessed s = Some d \<longrightarrow> confusion_cache s (get_cache_key t) = None \<longrightarrow>
        roc_counts d t
          = (tp (fst (get_confusion_matrix t s clk)), fp (fst (get_confusion_matrix t s clk))))"
  by (simp add: roc_counts_confusion get_confusion_matrix_miss)
     (simp add: roc_rejeitado_mask_def aprovado_mask_def not_le mask_not_def)

theorem roc_rejected_complements_approved_witness:
  "df_preprocessed (init (Table population4)) = Some (map normalize_row population4)
   \<and> confusion_cache (init (Table population4)) (get_cache_key 0.5) = None
   \<and> roc_rejeitado_mask (map normalize_row population4) 0.5 = [True, False, False, False]
   \<and> aprovado_mask (map normalize_row population4) 0.5 = [False, True, True, True]
   \<and> roc_counts (map normalize_row population4) 0.5 = (1, 0)
   \<and> tp (fst (get_confusion_matrix 0.5 (init (Table population4)) clock0)) = 1
   \<and> fp (fst (get_confusion_matrix 0.5 (init (Table population4)) clock0)) = 0"
proof -
  have k: "confusion_cache (init (Table population4)) (get_cache_key 0.5) = None"
    by (simp add: init_population4)
  have m: "roc_rejeitado_mask (map normalize_row population4) 0.5 = [True, False, False, False]"
    "aprovado_mask (map normalize_row population4) 0.5 = [False, True, True, True]"
    by (simp_all add: rows_population4 roc_rejeitado_mask_def aprovado_mask_def float64_scores)
  have c: "roc_counts (map normalize_row population4) 0.5 = (1, 0)"
    unfolding rows_population4
    by (simp add: roc_counts_def roc_rejeitado_mask_def Let_def mask_and_def mask_sum_def
        float64_scores)
  have e: "roc_counts (map normalize_row population4) 0.5
             = (tp (fst (get_confusion_matrix 0.5 (init (Table population4)) clock0)),
                fp (fst (get_confusion_matrix 0.5 (init (Table population4)) clock0)))"
    using roc_rejected_complements_approved
      [of "map normalize_row population4" "0.5" "init (Table population4)" clock0]
      k init_population4(1)
    by blast
  have "tp (fst (get_confusion_matrix 0.5 (init (Table population4)) clock0)) = 1
        \<and> fp (fst (get_confusion_matrix 0.5 (init (Table population4)) clock0)) = 0"
    using e c by (metis prod.inject)
  then show ?thesis
    using k m c init_population4(1) by simp
qed

section \<open>Properties of the threshold optimizer\<close>

lemma float64_grid_ends:
  "float64 (1 / 10) = 3602879701896397 / 36028797018963968"
  "float64 (9 / 10) = 8106479329266893 / 9007199254740992"
  by (simp_all add: f64_eval)

lemma linspace_step:
  "fsub (8106479329266893 / 9007199254740992) (3602879701896397 / 36028797018963968)
     = 3602879701896397 / 4503599627370496"
  "fdiv (3602879701896397 / 4503599627370496) 8 = 3602879701896397 / 36028797018963968"
  by (simp_all add: fsub_def fdiv_def f64_eval)

lemma fmul_0 [simp]: "fmul 0 x = 0"
  by (simp add: fmul_def)

lemma linspace_points:
  "fmul 1 (3602879701896397 / 36028797018963968) = 3602879701896397 / 36028797018963968"
  "fmul 2 (3602879701896397 / 36028797018963968) = 3602879701896397 / 18014398509481984"
  "fmul 3 (3602879701896397 / 36028797018963968) = 1351079888211149 / 4503599627370496"
  "fmul 4 (3602879701896397 / 36028797018963968) = 3602879701896397 / 9007199254740992"
  "fmul 5 (3602879701896397 / 36028797018963968) = 1 / 2"
  "fmul 6 (3602879701896397 / 36028797018963968) = 1351079888211149 / 2251799813685248"
  "fmul 7 (3602879701896397 / 36028797018963968) = 6305039478318695 / 9007199254740992"
  "fmul 8 (3602879701896397 / 36028797018963968) = 3602879701896397 / 4503599627370496"
  by (simp_all add: fmul_def f64_eval)

lemma linspace_shifted:
  "fadd 0 (3602879701896397 / 36028797018963968) = 3602879701896397 / 36028797018963968"
  "fadd (3602879701896397 / 36028797018963968) (3602879701896397 / 36028797018963968)
     = 3602879701896397 / 18014398509481984"
  "fadd (3602879701896397 / 18014398509481984) (3602879701896397 / 36028797018963968)
     = 1351079888211149 / 4503599627370496"
  "fadd (1351079888211149 / 4503599627370496) (3602879701896397 / 36028797018963968)
     = 3602879701896397 / 9007199254740992"
  "fadd (3602879701896397 / 9007199254740992) (3602879701896397 / 36028797018963968) = 1 / 2"
  "fadd (1 / 2) (3602879701896397 / 36028797018963968) = 5404319552844595 / 9007199254740992"
  "fadd (1351079888211149 / 2251799813685248) (3602879701896397 / 36028797018963968)
     = 6305039478318695 / 9007199254740992"
  "fadd (6305039478318695 / 9007199254740992) (3602879701896397 / 36028797018963968)
     = 3602879701896397 / 4503599627370496"
  by (simp_all add: fadd_def f64_eval)

lemma linspace_grid:
  "linspace (float64 0.1) (float64 0.9) 9 =
     [3602879701896397 / 36028797018963968, 3602879701896397 / 18014398509481984,
      1351079888211149 / 4503599627370496, 3602879701896397 / 9007199254740992,
      1 / 2, 5404319552844595 / 9007199254740992, 6305039478318695 / 9007199254740992,
      3602879701896397 / 4503599627370496, 8106479329266893 / 9007199254740992]"
proof -
  have "[0..<9] = [0, 1, 2, 3, 4, 5, 6, 7, 8]"
    by code_simp
  then show ?thesis
    by (simp add: linspace_def Let_def float64_grid_ends linspace_step linspace_points
        linspace_shifted)
qed

lemma float64_decimals:
  "float64 (1 / 10) = 3602879701896397 / 36028797018963968"
  "float64 (1 / 5) = 3602879701896397 / 18014398509481984"
  "float64 (3 / 10) = 5404319552844595 / 18014398509481984"
  "float64 (2 / 5) = 3602879701896397 / 9007199254740992"
  "float64 (3 / 5) = 5404319552844595 / 9007199254740992"
  "float64 (7 / 10) = 3152519739159347 / 4503599627370496"
  "float64 (4 / 5) = 3602879701896397 / 4503599627370496"
  "float64 (9 / 10) = 8106479329266893 / 9007199254740992"
  by (simp_all add: f64_eval)

lemma py_round_grid:
  "map (\<lambda>t. py_round t 2)
     [3602879701896397 / 36028797018963968, 3602879701896397 / 18014398509481984,
      1351079888211149 / 4503599627370496, 3602879701896397 / 9007199254740992,
      1 / 2, 5404319552844595 / 9007199254740992, 6305039478318695 / 9007199254740992,
      3602879701896397 / 4503599627370496, 8106479329266893 / 9007199254740992]
     = [float64 0.1, float64 0.2, float64 0.3, float64 0.4, 0.5, float64 0.6, float64 0.7,
        float64 0.8, float64 0.9]"
  by (simp add: py_round_def round_half_even_def Let_def float64_bounds)

lemma best_so_far_step:
  assumes inv: "best_so_far bt bv rs"
    and lt: "\<forall>r\<in>set rs. r_threshold r < py_round thr 2"
  shows "best_so_far (if gt_ext v bv then thr else bt) (if gt_ext v bv then Fin v else bv)
           (rs @ [\<lparr>r_threshold = py_round thr 2, r_value = v, r_metrics = m\<rparr>])"
proof (cases bv)
  case NegInf
  then show ?thesis
    using inv by (simp add: best_so_far_def)
next
  case (Fin b)
  show ?thesis
  proof (cases "b < v")
    case True
    then show ?thesis
      using inv Fin by (auto simp: best_so_far_def)
  next
    case False
    then show ?thesis
      using inv lt Fin by (fastforce simp: best_so_far_def)
  qed
qed

lemma optimize_loop_scan:
  assumes "optimize_loop obj ths bt bv rs s clk = ((bt', bv', rs'), s', clk')"
    and "best_so_far bt bv rs"
    and "sorted_wrt (<) (map r_threshold rs @ map (\<lambda>t. py_round t 2) ths)"
  shows "best_so_far bt' bv' rs'
         \<and> map r_threshold rs' = map r_threshold rs @ map (\<lambda>t. py_round t 2) ths
         \<and> (ths \<noteq> [] \<or> bv \<noteq> NegInf \<longrightarrow> bv' \<noteq> NegInf)
         \<and> (bt' = bt \<or> bt' \<in> set ths)
         \<and> (\<forall>r\<in>set rs'. r \<in> set rs \<or> r_value r = objective_value obj (r_metrics r))"
  using assms
proof (induction ths arbitrary: bt bv rs s clk)
  case Nil
  then show ?case by simp
next
  case (Cons thr ths)
  obtain m s1 clk1 where g: "get_metrics thr s clk = (m, s1, clk1)"
    by (cases "get_metrics thr s clk") auto
  let ?v = "objective_value obj m"
  let ?r = "\<lparr>r_threshold = py_round thr 2, r_value = ?v, r_metrics = m\<rparr>"
  let ?bt = "if gt_ext ?v bv then thr else bt"
  let ?bv = "if gt_ext ?v bv then Fin ?v else bv"
  have run: "optimize_loop obj ths ?bt ?bv (rs @ [?r]) s1 clk1 = ((bt', bv', rs'), s', clk')"
    using Cons.prems(1) g by (cases "gt_ext ?v bv") (simp_all add: Let_def)
  have lt: "\<forall>r\<in>set rs. r_threshold r < py_round thr 2"
    using Cons.prems(3) by (auto simp: sorted_wrt_append)
  have inv: "best_so_far ?bt ?bv (rs @ [?r])"
    using best_so_far_step [OF Cons.prems(2) lt] .
  have srt: "sorted_wrt (<) (map r_threshold (rs @ [?r]) @ map (\<lambda>t. py_round t 2) ths)"
    using Cons.prems(3) by simp
  have fin: "?bv \<noteq> NegInf"
    by (cases bv) auto
  from Cons.IH [OF run inv srt] fin show ?case
    by auto
qed


lemma get_metrics_frame:
  "df_preprocessed (fst (snd (get_metrics t s clk))) = df_preprocessed s
   \<and> total_clientes (fst (snd (get_metrics t s clk))) = total_clientes s
   \<and> valor_medio (fst (snd (get_metrics t s clk))) = valor_medio s"
  using get_metrics_state [of t s clk] by auto

lemma get_metrics_snapshot:
  assumes "cache_inv s"
  shows "is_snapshot s (get_cache_key t) (fst (get_metrics t s clk))"
proof (cases "df_preprocessed s = None \<or> df_preprocessed s = Some []")
  case True
  then show ?thesis
    using get_metrics_no_rows [OF assms True, of t clk] by (auto simp: is_snapshot_def)
next
  case False
  then obtain d where d: "df_preprocessed s = Some d" "d \<noteq> []"
    by auto
  show ?thesis
    using get_metrics_result [OF assms d, of t clk] d by (auto simp: is_snapshot_def)
qed

lemma is_snapshot_frame:
  assumes "df_preprocessed s' = df_preprocessed s" and "total_clientes s' = total_clientes s"
    and "valor_medio s' = valor_medio s"
  shows "is_snapshot s' k m = is_snapshot s k m"
  by (simp only: is_snapshot_def assms)

lemma optimize_loop_snapshots:
  assumes "optimize_loop obj ths bt bv rs s clk = ((bt', bv', rs'), s', clk')"
    and "cache_inv s"
    and "\<forall>r\<in>set rs. is_snapshot s (r_threshold r) (r_metrics r)"
  shows "(\<forall>r\<in>set rs'. is_snapshot s (r_threshold r) (r_metrics r))
         \<and> cache_inv s'
         \<and> df_preprocessed s' = df_preprocessed s
         \<and> total_clientes s' = total_clientes s
         \<and> valor_medio s' = valor_medio s"
  using assms
proof (induction ths arbitrary: bt bv rs s clk)
  case Nil
  then show ?case by simp
next
  case (Cons thr ths)
  obtain m s1 clk1 where g: "get_metrics thr s clk = (m, s1, clk1)"
    by (cases "get_metrics thr s clk") auto
  let ?v = "objective_value obj m"
  let ?r = "\<lparr>r_threshold = py_round thr 2, r_value = ?v, r_metrics = m\<rparr>"
  let ?bt = "if gt_ext ?v bv then thr else bt"
  let ?bv = "if gt_ext ?v bv then Fin ?v else bv"
  have run: "optimize_loop obj ths ?bt ?bv (rs @ [?r]) s1 clk1 = ((bt', bv', rs'), s', clk')"
    using Cons.prems(1) g by (cases "gt_ext ?v bv") (simp_all add: Let_def)
  have fr: "df_preprocessed s1 = df_preprocessed s" "total_clientes s1 = total_clientes s"
    "valor_medio s1 = valor_medio s"
    using get_metrics_frame [of thr s clk] g by simp_all
  have sn: "is_snapshot s1 k x = is_snapshot s k x" for k x
    using fr by (rule is_snapshot_frame)
  have inv1: "cache_inv s1"
    using cache_inv_get_metrics [OF Cons.prems(2), of thr clk] g by simp
  have m: "is_snapshot s (py_round thr 2) m"
    using get_metrics_snapshot [OF Cons.prems(2), of thr clk] g by (simp add: get_cache_key_def)
  have all1: "\<forall>r\<in>set (rs @ [?r]). is_snapshot s1 (r_threshold r) (r_metrics r)"
    using Cons.prems(3) m by (simp add: sn)
  from Cons.IH [OF run inv1 all1] show ?case
    by (simp add: sn fr)
qed

lemma get_metrics_miss_state:
  assumes "df_preprocessed s = Some d" and "d \<noteq> []"
    and "metrics_cache s (get_cache_key t) = None"
  shows "fst (snd (get_metrics t s clk)) =
           s\<lparr>metrics_cache := (metrics_cache s)
                (get_cache_key t \<mapsto>
                   (compute_metrics d (total_clientes s) (valor_medio s) t, clk 0))\<rparr>"
  using assms
  by (simp add: get_metrics_def get_from_cache_def save_to_cache_def time_time_def Let_def)

lemma optimize_loop_cold:
  assumes "optimize_loop obj ths bt bv rs s clk = ((bt', bv', rs'), s', clk')"
    and "df_preprocessed s = Some d" and "d \<noteq> []"
    and "distinct (map get_cache_key ths)"
    and "\<forall>g\<in>set ths. metrics_cache s (get_cache_key g) = None"
  shows "rs' = rs @ map (\<lambda>g. \<lparr>r_threshold = py_round g 2,
                   r_value = objective_value obj
                     (compute_metrics d (total_clientes s) (valor_medio s) g),
                   r_metrics = compute_metrics d (total_clientes s) (valor_medio s) g\<rparr>) ths
         \<and> (\<forall>g\<in>set ths. \<exists>ts. metrics_cache s' (get_cache_key g)
                = Some (compute_metrics d (total_clientes s) (valor_medio s) g, ts))
         \<and> (\<forall>k. k \<notin> get_cache_key ` set ths \<longrightarrow> metrics_cache s' k = metrics_cache s k)
         \<and> df_preprocessed s' = Some d
         \<and> total_clientes s' = total_clientes s \<and> valor_medio s' = valor_medio s"
  using assms
proof (induction ths arbitrary: bt bv rs s clk)
  case Nil
  then show ?case by simp
next
  case (Cons thr ths)
  let ?C = "compute_metrics d (total_clientes s) (valor_medio s)"
  obtain m s1 clk1 where g: "get_metrics thr s clk = (m, s1, clk1)"
    by (cases "get_metrics thr s clk") auto
  have miss: "metrics_cache s (get_cache_key thr) = None"
    using Cons.prems(5) by simp
  have m: "m = ?C thr"
    using get_metrics_miss [OF Cons.prems(2,3) miss, of clk] g by simp
  define ts where "ts = clk 0"
  have s1: "s1 = s\<lparr>metrics_cache := (metrics_cache s)(get_cache_key thr \<mapsto> (?C thr, ts))\<rparr>"
    using get_metrics_miss_state [OF Cons.prems(2,3) miss, of clk] g by (simp add: ts_def)
  let ?r = "\<lparr>r_threshold = py_round thr 2, r_value = objective_value obj (?C thr),
             r_metrics = ?C thr\<rparr>"
  let ?bt = "if gt_ext (objective_value obj (?C thr)) bv then thr else bt"
  let ?bv = "if gt_ext (objective_value obj (?C thr)) bv
             then Fin (objective_value obj (?C thr)) else bv"
  have run: "optimize_loop obj ths ?bt ?bv (rs @ [?r]) s1 clk1 = ((bt', bv', rs'), s', clk')"
    using Cons.prems(1) g m
    by (cases "gt_ext (objective_value obj (?C thr)) bv") (simp_all add: Let_def)
  have d1: "df_preprocessed s1 = Some d"
    and n1: "total_clientes s1 = total_clientes s" and v1: "valor_medio s1 = valor_medio s"
    using Cons.prems(2) by (simp_all add: s1)
  have dist: "distinct (map get_cache_key ths)"
    and notin: "get_cache_key thr \<notin> get_cache_key ` set ths"
    using Cons.prems(4) by simp_all
  have none1: "\<forall>g\<in>set ths. metrics_cache s1 (get_cache_key g) = None"
  proof
    fix g
    assume g: "g \<in> set ths"
    then have "get_cache_key g \<noteq> get_cache_key thr"
      using notin by (metis imageI)
    then show "metrics_cache s1 (get_cache_key g) = None"
      using Cons.prems(5) g by (simp add: s1)
  qed
  note ih = Cons.IH [OF run d1 Cons.prems(3) dist none1, unfolded n1 v1]
  have a: "rs' = rs @ map (\<lambda>g. \<lparr>r_threshold = py_round g 2,
                   r_value = objective_value obj (?C g), r_metrics = ?C g\<rparr>) (thr # ths)"
    using ih by simp
  have keep: "metrics_cache s' (get_cache_key thr) = Some (?C thr, ts)"
    using ih notin by (simp add: s1)
  have b: "\<forall>g\<in>set (thr # ths). \<exists>ts. metrics_cache s' (get_cache_key g) = Some (?C g, ts)"
    using ih keep by simp
  have c: "\<forall>k. k \<notin> get_cache_key ` set (thr # ths) \<longrightarrow> metrics_cache s' k = metrics_cache s k"
    using ih by (simp add: s1)
  show ?case
    using a b c ih by simp
qed

lemma get_metrics_cached_value:
  assumes "df_preprocessed s = Some d" and "d \<noteq> []"
    and "metrics_cache s (get_cache_key t)
           = Some (compute_metrics d (total_clientes s) (valor_medio s) t, ts)"
  shows "fst (get_metrics t s clk) = compute_metrics d (total_clientes s) (valor_medio s) t"
proof (cases "fst (get_from_cache (metrics_cache s) (cache_ttl s) (get_cache_key t) clk)")
  case None
  then show ?thesis
    using assms(1,2) by (simp add: get_metrics_fst)
next
  case (Some m)
  then obtain ts' where "metrics_cache s (get_cache_key t) = Some (m, ts')"
    using get_from_cache_hit by fastforce
  then have "m = compute_metrics d (total_clientes s) (valor_medio s) t"
    using assms(3) by simp
  then show ?thesis
    using Some by (simp add: get_metrics_fst)
qed

lemma grid_thresholds:
  "map (\<lambda>t. py_round t 2) (linspace (float64 0.1) (float64 0.9) 9)
     = [float64 0.1, float64 0.2, float64 0.3, float64 0.4, 0.5, float64 0.6, float64 0.7,
        float64 0.8, float64 0.9]"
  by (simp only: linspace_grid py_round_grid)

lemma grid_thresholds_sorted:
  "sorted_wrt (<) [float64 0.1, float64 0.2, float64 0.3, float64 0.4, 0.5, float64 0.6,
     float64 0.7, float64 0.8, float64 0.9]"
  by (simp add: float64_decimals)

lemma grid_keys_distinct:
  "distinct (map get_cache_key (linspace (float64 0.1) (float64 0.9) 9))"
proof -
  have "map get_cache_key (linspace (float64 0.1) (float64 0.9) 9)
          = map (\<lambda>t. py_round t 2) (linspace (float64 0.1) (float64 0.9) 9)"
    by (simp add: get_cache_key_def)
  also have "\<dots> = [float64 0.1, float64 0.2, float64 0.3, float64 0.4, 0.5, float64 0.6,
                     float64 0.7, float64 0.8, float64 0.9]"
    by (rule grid_thresholds)
  finally show ?thesis
    by (simp add: float64_decimals)
qed

lemma optimize_threshold_loaded:
  assumes "df_preprocessed s = Some d"
  shows "\<exists>bt b rs s1 clk1.
           optimize_loop obj (linspace (float64 0.1) (float64 0.9) 9) 0.5 NegInf [] s clk
             = ((bt, Fin b, rs), s1, clk1)
           \<and> optimize_threshold obj s clk =
               (\<lparr>optimal_threshold = py_round bt 2, objective = obj, best_value = Some (Fin b),
                 best_metrics = Some (fst (get_metrics bt s1 clk1)), all_results = Some rs\<rparr>,
                snd (get_metrics bt s1 clk1))
           \<and> bt \<in> set (linspace (float64 0.1) (float64 0.9) 9)
           \<and> best_so_far bt (Fin b) rs
           \<and> map r_threshold rs =
                 [float64 0.1, float64 0.2, float64 0.3, float64 0.4, 0.5, float64 0.6,
                  float64 0.7, float64 0.8, float64 0.9]
           \<and> (\<forall>r\<in>set rs. r_value r = objective_value obj (r_metrics r))"
proof -
  let ?grid = "linspace (float64 0.1) (float64 0.9) 9"
  obtain bt bv rs s1 clk1
    where run: "optimize_loop obj ?grid 0.5 NegInf [] s clk = ((bt, bv, rs), s1, clk1)"
    by (cases "optimize_loop obj ?grid 0.5 NegInf [] s clk") auto
  have start: "best_so_far 0.5 NegInf []"
    by (simp add: best_so_far_def)
  have srt: "sorted_wrt (<) (map r_threshold [] @ map (\<lambda>t. py_round t 2) ?grid)"
    using grid_thresholds_sorted by (simp only: grid_thresholds list.map append_Nil)
  note scan = optimize_loop_scan [OF run start srt]
  have ne: "?grid \<noteq> []"
    by (simp only: linspace_grid) simp
  have "bv \<noteq> NegInf"
    using scan ne by blast
  then obtain b where b: "bv = Fin b"
    by (cases bv) auto
  have "bt = 0.5 \<or> bt \<in> set ?grid"
    using scan by blast
  moreover have "0.5 \<in> set ?grid"
    by (simp only: linspace_grid) simp
  ultimately have mem: "bt \<in> set ?grid"
    by blast
  have "map r_threshold rs
          = map r_threshold ([]::grid_result list) @ map (\<lambda>t. py_round t 2) ?grid"
    using scan by blast
  then have thr: "map r_threshold rs =
                 [float64 0.1, float64 0.2, float64 0.3, float64 0.4, 0.5, float64 0.6,
                  float64 0.7, float64 0.8, float64 0.9]"
    by (simp only: grid_thresholds list.map append_Nil)
  have val: "\<forall>r\<in>set rs. r_value r = objective_value obj (r_metrics r)"
    using scan by auto
  have inv: "best_so_far bt (Fin b) rs"
    using scan b by blast
  have res: "optimize_threshold obj s clk =
               (\<lparr>optimal_threshold = py_round bt 2, objective = obj, best_value = Some (Fin b),
                 best_metrics = Some (fst (get_metrics bt s1 clk1)), all_results = Some rs\<rparr>,
                snd (get_metrics bt s1 clk1))"
    using assms run b by (simp add: optimize_threshold_def split: prod.splits)
  have run': "optimize_loop obj ?grid 0.5 NegInf [] s clk = ((bt, Fin b, rs), s1, clk1)"
    using run b by simp
  show ?thesis
    apply (intro exI conjI)
         apply (rule run')
        apply (rule res)
       apply (rule mem)
      apply (rule inv)
     apply (rule thr)
    apply (rule val)
    done
qed

text \<open>
  Claim C4. With a table loaded, for every objective, \<open>optimize_threshold\<close> scans the nine
  points of its grid in ascending order and records them under their thresholds rounded to
  two decimals, 0.1, 0.2 up to 0.9; its best value is the largest recorded value, and the
  threshold it returns is the lowest recorded threshold that reaches this value.
\<close>

theorem optimize_threshold_lowest_maximiser:
  assumes "df_preprocessed s = Some d"
  shows "\<exists>rs b. all_results (fst (optimize_threshold obj s clk)) = Some rs
           \<and> map r_threshold rs =
                 [float64 0.1, float64 0.2, float64 0.3, float64 0.4, 0.5, float64 0.6,
                  float64 0.7, float64 0.8, float64 0.9]
           \<and> best_value (fst (optimize_threshold obj s clk)) = Some (Fin b)
           \<and> (\<exists>r\<in>set rs. r_threshold r = optimal_threshold (fst (optimize_threshold obj s clk))
                  \<and> r_value r = b)
           \<and> (\<forall>r\<in>set rs. r_value r = objective_value obj (r_metrics r)
                  \<and> r_value r \<le> b
                  \<and> (r_value r = b \<longrightarrow>
                       optimal_threshold (fst (optimize_threshold obj s clk)) \<le> r_threshold r))"
proof -
  obtain bt b rs s1 clk1
    where res: "optimize_threshold obj s clk =
               (\<lparr>optimal_threshold = py_round bt 2, objective = obj, best_value = Some (Fin b),
                 best_metrics = Some (fst (get_metrics bt s1 clk1)), all_results = Some rs\<rparr>,
                snd (get_metrics bt s1 clk1))"
      and inv: "best_so_far bt (Fin b) rs"
      and thr: "map r_threshold rs =
                 [float64 0.1, float64 0.2, float64 0.3, float64 0.4, 0.5, float64 0.6,
                  float64 0.7, float64 0.8, float64 0.9]"
      and val: "\<forall>r\<in>set rs. r_value r = objective_value obj (r_metrics r)"
    using optimize_threshold_loaded [OF assms, of obj clk] by (elim exE conjE) (rule that)
  show ?thesis
    using inv thr val unfolding res best_so_far_def by auto
qed

text \<open>
  Claim C6 (amended). For every objective, in every state of the service. With a table loaded
  (empty or not), \<open>optimize_threshold\<close> returns all five fields: the scan of the nine grid
  points ends with a best threshold \<open>bt\<close> on the grid, a finite best value \<open>b\<close> and the result
  table \<open>rs\<close>, and the fields are \<open>bt\<close> rounded to 2 decimals, the objective name, \<open>b\<close>, the
  result of \<open>get_metrics\<close> at \<open>bt\<close> in the state that the scan leaves, which is a metrics
  snapshot of the table for the returned threshold, and \<open>rs\<close>. The nine entries of \<open>rs\<close> are
  recorded under 0.1, 0.2 up to 0.9; each holds a metrics snapshot of the table for its
  threshold and the objective value of that snapshot; none of the values is above \<open>b\<close>, and the
  entry at the returned threshold has the value \<open>b\<close>. When nothing is cached and the table
  has rows, \<open>rs\<close> is the table of the computation of \<open>get_metrics\<close> at each of the nine grid
  points, and the returned snapshot is that computation at \<open>bt\<close>. Without a table, only the
  threshold 0.5 and the objective name are returned, and the last three fields are absent.
\<close>

theorem optimize_threshold_fields:
  assumes "reachable s"
  shows
  "(df_preprocessed s = Some d \<longrightarrow>
      (\<exists>bt b rs s1 clk1.
         optimize_loop obj (linspace (float64 0.1) (float64 0.9) 9) 0.5 NegInf [] s clk
           = ((bt, Fin b, rs), s1, clk1)
         \<and> optimize_threshold obj s clk =
             (\<lparr>optimal_threshold = py_round bt 2, objective = obj, best_value = Some (Fin b),
               best_metrics = Some (fst (get_metrics bt s1 clk1)), all_results = Some rs\<rparr>,
              snd (get_metrics bt s1 clk1))
         \<and> bt \<in> set (linspace (float64 0.1) (float64 0.9) 9)
         \<and> map r_threshold rs =
               [float64 0.1, float64 0.2, float64 0.3, float64 0.4, 0.5, float64 0.6,
                float64 0.7, float64 0.8, float64 0.9]
         \<and> (\<exists>r\<in>set rs. r_threshold r = py_round bt 2 \<and> r_value r = b)
         \<and> (\<forall>r\<in>set rs. r_value r = objective_value obj (r_metrics r) \<and> r_value r \<le> b
                \<and> is_snapshot s (r_threshold r) (r_metrics r))
         \<and> is_snapshot s (py_round bt 2) (fst (get_metrics bt s1 clk1))
         \<and> (metrics_cache s = Map.empty \<longrightarrow> d \<noteq> [] \<longrightarrow>
               rs = map (\<lambda>g. \<lparr>r_threshold = py_round g 2,
                          r_value = objective_value obj
                            (compute_metrics d (total_clientes s) (valor_medio s) g),
                          r_metrics = compute_metrics d (total_clientes s) (valor_medio s) g\<rparr>)
                      (linspace (float64 0.1) (float64 0.9) 9)
               \<and> fst (get_metrics bt s1 clk1)
                   = compute_metrics d (total_clientes s) (valor_medio s) bt)))
   \<and> (df_preprocessed s = None \<longrightarrow>
        optimize_threshold obj s clk =
          (\<lparr>optimal_threshold = 0.5, objective = obj, best_value = None,
            best_metrics = None, all_results = None\<rparr>, s, clk))"
proof (intro conjI impI)
  assume loaded: "df_preprocessed s = Some d"
  let ?grid = "linspace (float64 0.1) (float64 0.9) 9"
  have cinv: "cache_inv s"
    using assms by (rule reachable_cache_inv)
  obtain bt b rs s1 clk1
    where run: "optimize_loop obj ?grid 0.5 NegInf [] s clk = ((bt, Fin b, rs), s1, clk1)"
      and res: "optimize_threshold obj s clk =
               (\<lparr>optimal_threshold = py_round bt 2, objective = obj, best_value = Some (Fin b),
                 best_metrics = Some (fst (get_metrics bt s1 clk1)), all_results = Some rs\<rparr>,
                snd (get_metrics bt s1 clk1))"
      and mem: "bt \<in> set ?grid"
      and inv: "best_so_far bt (Fin b) rs"
      and thr: "map r_threshold rs =
                 [float64 0.1, float64 0.2, float64 0.3, float64 0.4, 0.5, float64 0.6,
                  float64 0.7, float64 0.8, float64 0.9]"
      and val: "\<forall>r\<in>set rs. r_value r = objective_value obj (r_metrics r)"
    using optimize_threshold_loaded [OF loaded, of obj clk] by (elim exE conjE) (rule that)
  have none: "\<forall>r\<in>set []. is_snapshot s (r_threshold r) (r_metrics (r::grid_result))"
    by simp
  note sn = optimize_loop_snapshots [OF run cinv none]
  have snap: "\<forall>r\<in>set rs. is_snapshot s (r_threshold r) (r_metrics r)"
    using sn by blast
  have inv1: "cache_inv s1"
    using sn by blast
  have "is_snapshot s1 (get_cache_key bt) (fst (get_metrics bt s1 clk1))"
    using inv1 by (rule get_metrics_snapshot)
  moreover have "is_snapshot s1 k x = is_snapshot s k x" for k x
    using sn by (intro is_snapshot_frame) blast+
  ultimately have last: "is_snapshot s (py_round bt 2) (fst (get_metrics bt s1 clk1))"
    by (simp add: get_cache_key_def)
  have best: "\<exists>r\<in>set rs. r_threshold r = py_round bt 2 \<and> r_value r = b"
    using inv by (simp add: best_so_far_def)
  have le: "\<forall>r\<in>set rs. r_value r \<le> b"
    using inv by (simp add: best_so_far_def)
  have all: "\<forall>r\<in>set rs. r_value r = objective_value obj (r_metrics r) \<and> r_value r \<le> b
                \<and> is_snapshot s (r_threshold r) (r_metrics r)"
    using val le snap by blast
  have cold: "metrics_cache s = Map.empty \<longrightarrow> d \<noteq> [] \<longrightarrow>
               rs = map (\<lambda>g. \<lparr>r_threshold = py_round g 2,
                          r_value = objective_value obj
                            (compute_metrics d (total_clientes s) (valor_medio s) g),
                          r_metrics = compute_metrics d (total_clientes s) (valor_medio s) g\<rparr>)
                      ?grid
               \<and> fst (get_metrics bt s1 clk1)
                   = compute_metrics d (total_clientes s) (valor_medio s) bt"
  proof (intro impI)
    assume empty: "metrics_cache s = Map.empty" and ne: "d \<noteq> []"
    have none: "\<forall>g\<in>set ?grid. metrics_cache s (get_cache_key g) = None"
      by (simp add: empty)
    note c = optimize_loop_cold [OF run loaded ne grid_keys_distinct none]
    have rs: "rs = [] @ map (\<lambda>g. \<lparr>r_threshold = py_round g 2,
                          r_value = objective_value obj
                            (compute_metrics d (total_clientes s) (valor_medio s) g),
                          r_metrics = compute_metrics d (total_clientes s) (valor_medio s) g\<rparr>)
                      ?grid"
      using c by (rule conjunct1)
    have d1: "df_preprocessed s1 = Some d" and n1: "total_clientes s1 = total_clientes s"
      and v1: "valor_medio s1 = valor_medio s"
      using c by blast+
    obtain ts where "metrics_cache s1 (get_cache_key bt)
        = Some (compute_metrics d (total_clientes s) (valor_medio s) bt, ts)"
      using c mem by blast
    then have "metrics_cache s1 (get_cache_key bt)
        = Some (compute_metrics d (total_clientes s1) (valor_medio s1) bt, ts)"
      by (simp only: n1 v1)
    then have "fst (get_metrics bt s1 clk1)
        = compute_metrics d (total_clientes s1) (valor_medio s1) bt"
      by (rule get_metrics_cached_value [OF d1 ne])
    then show "rs = map (\<lambda>g. \<lparr>r_threshold = py_round g 2,
                          r_value = objective_value obj
                            (compute_metrics d (total_clientes s) (valor_medio s) g),
                          r_metrics = compute_metrics d (total_clientes s) (valor_medio s) g\<rparr>)
                      ?grid
               \<and> fst (get_metrics bt s1 clk1)
                   = compute_metrics d (total_clientes s) (valor_medio s) bt"
      using rs by (simp add: n1 v1)
  qed
  show "\<exists>bt b rs s1 clk1.
         optimize_loop obj ?grid 0.5 NegInf [] s clk = ((bt, Fin b, rs), s1, clk1)
         \<and> optimize_threshold obj s clk =
             (\<lparr>optimal_threshold = py_round bt 2, objective = obj, best_value = Some (Fin b),
               best_metrics = Some (fst (get_metrics bt s1 clk1)), all_results = Some rs\<rparr>,
              snd (get_metrics bt s1 clk1))
         \<and> bt \<in> set ?grid
         \<and> map r_threshold rs =
               [float64 0.1, float64 0.2, float64 0.3, float64 0.4, 0.5, float64 0.6,
                float64 0.7, float64 0.8, float64 0.9]
         \<and> (\<exists>r\<in>set rs. r_threshold r = py_round bt 2 \<and> r_value r = b)
         \<and> (\<forall>r\<in>set rs. r_value r = objective_value obj (r_metrics r) \<and> r_value r \<le> b
                \<and> is_snapshot s (r_threshold r) (r_metrics r))
         \<and> is_snapshot s (py_round bt 2) (fst (get_metrics bt s1 clk1))
         \<and> (metrics_cache s = Map.empty \<longrightarrow> d \<noteq> [] \<longrightarrow>
               rs = map (\<lambda>g. \<lparr>r_threshold = py_round g 2,
                          r_value = objective_value obj
                            (compute_metrics d (total_clientes s) (valor_medio s) g),
                          r_metrics = compute_metrics d (total_clientes s) (valor_medio s) g\<rparr>)
                      ?grid
               \<and> fst (get_metrics bt s1 clk1)
                   = compute_metrics d (total_clientes s) (valor_medio s) bt)"
    apply (intro exI conjI)
           apply (rule run)
          apply (rule res)
         apply (rule mem)
        apply (rule thr)
       apply (rule best)
      apply (rule all)
     apply (rule last)
    apply (rule cold)
    done
next
  assume "df_preprocessed s = None"
  then show "optimize_threshold obj s clk =
          (\<lparr>optimal_threshold = 0.5, objective = obj, best_value = None,
            best_metrics = None, all_results = None\<rparr>, s, clk)"
    by (simp add: optimize_threshold_def)
qed

lemma init_population4_record:
  "init (Table population4) =
     \<lparr>df = Some population4, df_preprocessed = Some (map normalize_row population4),
      metrics_cache = Map.empty, confusion_cache = Map.empty, cache_ttl = 300,
      total_clientes = 4, valor_medio = 250\<rparr>"
  by (simp add: init_def load_data_def preprocess_data_def population4_def mean_def
        column_sum_def fdiv_def)

lemma grid_keys:
  "py_round (3602879701896397 / 36028797018963968) 2 = 3602879701896397 / 36028797018963968"
  "py_round (3602879701896397 / 18014398509481984) 2 = 3602879701896397 / 18014398509481984"
  "py_round (1351079888211149 / 4503599627370496) 2 = 5404319552844595 / 18014398509481984"
  "py_round (3602879701896397 / 9007199254740992) 2 = 3602879701896397 / 9007199254740992"
  "py_round (1 / 2) 2 = 1 / 2"
  "py_round (5404319552844595 / 9007199254740992) 2 = 5404319552844595 / 9007199254740992"
  "py_round (6305039478318695 / 9007199254740992) 2 = 3152519739159347 / 4503599627370496"
  "py_round (3602879701896397 / 4503599627370496) 2 = 3602879701896397 / 4503599627370496"
  "py_round (8106479329266893 / 9007199254740992) 2 = 8106479329266893 / 9007199254740992"
  by (simp_all add: py_round_def f64_eval)

lemma linspace_grid_fractions:
  "linspace (3602879701896397 / 36028797018963968) (8106479329266893 / 9007199254740992) 9 =
     [3602879701896397 / 36028797018963968, 3602879701896397 / 18014398509481984,
      1351079888211149 / 4503599627370496, 3602879701896397 / 9007199254740992,
      1 / 2, 5404319552844595 / 9007199254740992, 6305039478318695 / 9007199254740992,
      3602879701896397 / 4503599627370496, 8106479329266893 / 9007199254740992]"
  using linspace_grid by (simp add: float64_grid_ends)

lemma optimize_population4:
  "optimal_threshold (fst (optimize_threshold ''profit'' (init (Table population4)) clock0))
     = float64 0.1"
  "best_value (fst (optimize_threshold ''profit'' (init (Table population4)) clock0))
     = Some (Fin 500)"
  "map_option (map r_value)
     (all_results (fst (optimize_threshold ''profit'' (init (Table population4)) clock0)))
     = Some [500, 500, 500, 500, 500, 300, 0, 0, 0]"
  unfolding init_population4_record rows_population4
  by (simp_all add: optimize_threshold_def linspace_grid_fractions get_metrics_def get_from_cache_def
        save_to_cache_def time_time_def clock0_def get_cache_key_def compute_metrics_def
        aprovado_mask_def mask_sum_def mask_and_def mask_not_def loc_def objective_value_def
        Let_def grid_keys float64_decimals column_sum_def fsub_def)

theorem optimize_threshold_lowest_maximiser_witness:
  "df_preprocessed (init (Table population4)) = Some (map normalize_row population4)
   \<and> map_option (map r_threshold)
        (all_results (fst (optimize_threshold ''profit'' (init (Table population4)) clock0)))
       = Some [float64 0.1, float64 0.2, float64 0.3, float64 0.4, 0.5, float64 0.6,
               float64 0.7, float64 0.8, float64 0.9]
   \<and> map_option (map r_value)
        (all_results (fst (optimize_threshold ''profit'' (init (Table population4)) clock0)))
       = Some [500, 500, 500, 500, 500, 300, 0, 0, 0]
   \<and> best_value (fst (optimize_threshold ''profit'' (init (Table population4)) clock0))
       = Some (Fin 500)
   \<and> optimal_threshold (fst (optimize_threshold ''profit'' (init (Table population4)) clock0))
       = float64 0.1"
proof -
  have "map_option (map r_threshold)
        (all_results (fst (optimize_threshold ''profit'' (init (Table population4)) clock0)))
       = Some [float64 0.1, float64 0.2, float64 0.3, float64 0.4, 0.5, float64 0.6,
               float64 0.7, float64 0.8, float64 0.9]"
    using optimize_threshold_lowest_maximiser [OF init_population4(1), of "''profit''" clock0]
    by auto
  then show ?thesis
    using optimize_population4 init_population4(1) by simp
qed

lemma risk_rates:
  "np_round (fmul (fdiv 2 4) 100) (Suc 0) = 50"
  "np_round (fmul (fdiv 1 3) 100) (Suc 0) = 2343279181116211 / 70368744177664"
  "np_round (fmul (fdiv 1 2) 100) (Suc 0) = 50"
  "np_round (fmul (fdiv 1 1) 100) (Suc 0) = 100"
  "float64 (333 / 10) = 2343279181116211 / 70368744177664"
  by (simp_all add: np_round_def fmul_def fdiv_def f64_eval)

lemma optimize_population4_risk:
  "optimal_threshold (fst (optimize_threshold ''risk'' (init (Table population4)) clock0))
     = float64 0.3"
  "objective (fst (optimize_threshold ''risk'' (init (Table population4)) clock0)) = ''risk''"
  "best_value (fst (optimize_threshold ''risk'' (init (Table population4)) clock0))
     = Some (Fin (- float64 33.3))"
  "best_metrics (fst (optimize_threshold ''risk'' (init (Table population4)) clock0))
     = Some \<lparr>saldoLiquido = 500, taxaAprovacao = 75, taxaInadimplencia = float64 33.3,
              totalClientes = 4, clientesAprovados = 3, clientesRejeitados = 1,
              receitaTotal = 900, perdasInadimplencia = 400, oportunidadesPerdidas = 0,
              perdasEvitadas = 100, valorMedio = 250,
              threshold = 1351079888211149 / 4503599627370496\<rparr>"
  "map_option (map r_value)
     (all_results (fst (optimize_threshold ''risk'' (init (Table population4)) clock0)))
     = Some [- 50, - 50, - float64 33.3, - float64 33.3, - float64 33.3, - 50, - 100, - 100,
             - 100]"
  unfolding init_population4_record rows_population4
  by (simp_all add: optimize_threshold_def linspace_grid_fractions get_metrics_def
        get_from_cache_def save_to_cache_def time_time_def clock0_def get_cache_key_def
        compute_metrics_def aprovado_mask_def mask_sum_def mask_and_def mask_not_def loc_def
        objective_value_def Let_def grid_keys float64_decimals column_sum_def fsub_def
        risk_rates py_round_75_25)

lemma init_no_table:
  "df_preprocessed (init FileMissing) = None"
  "df_preprocessed (init ReadFails) = None"
  "df_preprocessed (init (Table [])) = Some []"
  by (simp_all add: init_def load_data_def preprocess_data_def)

theorem optimize_threshold_fields_witness:
  "reachable (init (Table population4))
   \<and> df_preprocessed (init (Table population4)) = Some (map normalize_row population4)
   \<and> optimal_threshold (fst (optimize_threshold ''risk'' (init (Table population4)) clock0))
       = float64 0.3
   \<and> objective (fst (optimize_threshold ''risk'' (init (Table population4)) clock0)) = ''risk''
   \<and> best_value (fst (optimize_threshold ''risk'' (init (Table population4)) clock0))
       = Some (Fin (- float64 33.3))
   \<and> best_metrics (fst (optimize_threshold ''risk'' (init (Table population4)) clock0))
       = Some \<lparr>saldoLiquido = 500, taxaAprovacao = 75, taxaInadimplencia = float64 33.3,
                totalClientes = 4, clientesAprovados = 3, clientesRejeitados = 1,
                receitaTotal = 900, perdasInadimplencia = 400, oportunidadesPerdidas = 0,
                perdasEvitadas = 100, valorMedio = 250,
                threshold = 1351079888211149 / 4503599627370496\<rparr>
   \<and> map_option (map r_threshold)
        (all_results (fst (optimize_threshold ''risk'' (init (Table population4)) clock0)))
       = Some [float64 0.1, float64 0.2, float64 0.3, float64 0.4, 0.5, float64 0.6,
               float64 0.7, float64 0.8, float64 0.9]
   \<and> map_option (map r_value)
        (all_results (fst (optimize_threshold ''risk'' (init (Table population4)) clock0)))
       = Some [- 50, - 50, - float64 33.3, - float64 33.3, - float64 33.3, - 50, - 100, - 100,
               - 100]
   \<and> reachable (init FileMissing) \<and> df_preprocessed (init FileMissing) = None
   \<and> optimize_threshold ''risk'' (init FileMissing) clock0 =
        (\<lparr>optimal_threshold = 0.5, objective = ''risk'', best_value = None,
          best_metrics = None, all_results = None\<rparr>, init FileMissing, clock0)"
proof -
  have r: "reachable (init (Table population4))" "reachable (init FileMissing)"
    by (rule reachable_init)+
  have t: "map_option (map r_threshold)
        (all_results (fst (optimize_threshold ''risk'' (init (Table population4)) clock0)))
       = Some [float64 0.1, float64 0.2, float64 0.3, float64 0.4, 0.5, float64 0.6,
               float64 0.7, float64 0.8, float64 0.9]"
    using optimize_threshold_fields [OF r(1), of "map normalize_row population4" "''risk''" clock0]
      init_population4(1)
    by auto
  have u: "optimize_threshold ''risk'' (init FileMissing) clock0 =
        (\<lparr>optimal_threshold = 0.5, objective = ''risk'', best_value = None,
          best_metrics = None, all_results = None\<rparr>, init FileMissing, clock0)"
    using optimize_threshold_fields [OF r(2), of "[]" "''risk''" clock0] init_no_table(1)
    by simp
  show ?thesis
    using r t u optimize_population4_risk init_population4(1) init_no_table(1) by simp
qed

theorem optimize_threshold_unavailable_two_fields:
  "df_preprocessed (init FileMissing) = None
   \<and> best_value (fst (optimize_threshold ''profit'' (init FileMissing) clock0)) = None
   \<and> best_metrics (fst (optimize_threshold ''profit'' (init FileMissing) clock0)) = None
   \<and> all_results (fst (optimize_threshold ''profit'' (init FileMissing) clock0)) = None"
  by (simp add: optimize_threshold_def init_def load_data_def)

end
